theory Spec2Isabelle
  imports Main "HOL-Library.List_Lexorder" "HOL-Library.Sublist" "HOL-Library.AList"
begin

section \<open>Python values\<close>

text \<open>
  A Python \<open>str\<close> is a sequence of Unicode code points; it is modelled as a list of
  naturals, so that \<open>len\<close>, \<open>strip\<close>, \<open>split\<close>, \<open>in\<close> and \<open><\<close> count what Python counts.
  The order on \<open>pystr\<close> is the lexicographic order of \<open>HOL-Library.List_Lexorder\<close>,
  which is Python's order on \<open>str\<close> (code point by code point, a proper prefix first).
  \<open>py\<close> turns an ASCII literal of the source into its code points.
\<close>

type_synonym pystr = "nat list"

definition py :: "string \<Rightarrow> pystr" where
  "py s = map of_char s"

text \<open>
  The value \<open>json.load\<close> returns: \<open>None\<close>, \<open>bool\<close>, \<open>int\<close>, \<open>str\<close>, \<open>list\<close> and
  \<open>dict\<close> (keyed by \<open>str\<close>, its items in insertion order, each key once). JSON numbers
  with a fraction or an exponent (Python \<open>float\<close>) are not modelled.
\<close>

datatype json =
    JNull
  | JBool bool
  | JInt int
  | JStr pystr
  | JArr "json list"
  | JObj "(pystr \<times> json) list"

datatype exn =
    AttributeError
  | TypeError
  | KeyError
  | FileNotFoundError
  | JSONDecodeError
  | IOError
  | UnicodeEncodeError
  | ValueError vmsg
and vmsg =
    No_test_results       \<comment> \<open>\<open>"No test results found in claim data"\<close>\<close>
  | Error_extracting exn  \<comment> \<open>\<open>f"Error extracting test results: {e}"\<close>\<close>
  | Missing_claim         \<comment> \<open>\<open>"Invalid claim file: missing 'claim' section"\<close>\<close>
  | Missing_results       \<comment> \<open>\<open>"Invalid claim file: missing 'results' section"\<close>\<close>

text \<open>Sequencing of computations that may raise: the first exception wins.\<close>

definition then_do :: "exn + 'a \<Rightarrow> ('a \<Rightarrow> exn + 'b) \<Rightarrow> exn + 'b" where
  "then_do m f = (case m of Inl e \<Rightarrow> Inl e | Inr x \<Rightarrow> f x)"

text \<open>Truth value of an object, as \<open>if x:\<close> and \<open>not x\<close> test it.\<close>

fun truthy :: "json \<Rightarrow> bool" where
  "truthy JNull = False"
| "truthy (JBool b) = b"
| "truthy (JInt n) = (n \<noteq> 0)"
| "truthy (JStr s) = (s \<noteq> [])"
| "truthy (JArr xs) = (xs \<noteq> [])"
| "truthy (JObj kvs) = (kvs \<noteq> [])"

text \<open>\<open>x.get(k, d)\<close>: only a \<open>dict\<close> has the method.\<close>

fun py_get :: "json \<Rightarrow> pystr \<Rightarrow> json \<Rightarrow> exn + json" where
  "py_get (JObj kvs) k d = Inr (case map_of kvs k of Some v \<Rightarrow> v | None \<Rightarrow> d)"
| "py_get _ k d = Inl AttributeError"

text \<open>\<open>x.items()\<close>\<close>

fun py_items :: "json \<Rightarrow> exn + (pystr \<times> json) list" where
  "py_items (JObj kvs) = Inr kvs"
| "py_items _ = Inl AttributeError"

subsection \<open>String methods\<close>

text \<open>\<open>str.isspace\<close> on one code point: the code points Python's \<open>strip()\<close> removes.\<close>

definition is_space :: "nat \<Rightarrow> bool" where
  "is_space c \<longleftrightarrow>
     (9 \<le> c \<and> c \<le> 13) \<or> (28 \<le> c \<and> c \<le> 32) \<or> c = 133 \<or> c = 160 \<or> c = 5760
     \<or> (8192 \<le> c \<and> c \<le> 8202) \<or> c = 8232 \<or> c = 8233 \<or> c = 8239 \<or> c = 8287
     \<or> c = 12288"

definition py_strip :: "pystr \<Rightarrow> pystr" where
  "py_strip s = rev (dropWhile is_space (rev (dropWhile is_space s)))"

text \<open>\<open>s.split(sep)\<close> for a one-character separator; \<open>cur\<close> is the piece being read.\<close>

fun split_from :: "nat \<Rightarrow> pystr \<Rightarrow> pystr \<Rightarrow> pystr list" where
  "split_from sep cur [] = [cur]"
| "split_from sep cur (c # cs) =
     (if c = sep then cur # split_from sep [] cs else split_from sep (cur @ [c]) cs)"

definition py_split :: "nat \<Rightarrow> pystr \<Rightarrow> pystr list" where
  "py_split sep s = split_from sep [] s"

text \<open>\<open>sep.join(xs)\<close>\<close>

fun py_join :: "pystr \<Rightarrow> pystr list \<Rightarrow> pystr" where
  "py_join sep [] = []"
| "py_join sep [x] = x"
| "py_join sep (x # y # ys) = x @ sep @ py_join sep (y # ys)"

text \<open>\<open>sub in s\<close> on strings\<close>

fun starts_with :: "pystr \<Rightarrow> pystr \<Rightarrow> bool" where
  "starts_with [] s = True"
| "starts_with (p # ps) [] = False"
| "starts_with (p # ps) (c # cs) = (p = c \<and> starts_with ps cs)"

fun py_contains :: "pystr \<Rightarrow> pystr \<Rightarrow> bool" where
  "py_contains sub [] = (sub = [])"
| "py_contains sub (c # cs) = (starts_with sub (c # cs) \<or> py_contains sub cs)"

definition NL :: nat where
  "NL = 10"

section \<open>The result extractor\<close>

subsection \<open>Filtering the captured output\<close>

text \<open>
  Lines 52 to 58 of \<open>extract_test_results\<close> on a non-empty string:
  \<^verbatim>\<open>
  output_lines = captured_output.strip().split('\n')
  filtered_output = [line for line in output_lines if "INFO" not in line]
  filtered_output_str = '\n'.join(filtered_output)
  \<close>
\<close>

definition filter_lines :: "pystr \<Rightarrow> pystr" where
  "filter_lines s =
     py_join [NL] (filter (\<lambda>line. \<not> py_contains (py ''INFO'') line) (py_split NL (py_strip s)))"

text \<open>The same lines on a string, with the guard \<open>if captured_output:\<close>.\<close>

definition filter_captured :: "pystr \<Rightarrow> pystr" where
  "filter_captured s = (if s \<noteq> [] then filter_lines s else [])"

text \<open>
  On whatever \<open>test.get('capturedTestOutput', '')\<close> returned: a false value gives \<open>''\<close>,
  a true value that is no string has no \<open>strip\<close>.
\<close>

fun filtered_output_str :: "json \<Rightarrow> exn + pystr" where
  "filtered_output_str (JStr s) = Inr (filter_captured s)"
| "filtered_output_str v = (if truthy v then Inl AttributeError else Inr [])"

text \<open>
  What the specification describes: the lines of the input that do not contain
  \<open>INFO\<close>, in order, joined by newlines.
\<close>

definition spec_filter :: "pystr \<Rightarrow> pystr" where
  "spec_filter s =
     py_join [NL] (filter (\<lambda>line. \<not> sublist (py ''INFO'') line) (py_split NL s))"

subsection \<open>Normalising one entry\<close>

text \<open>
  \<open>f"{k}: {v}"\<close> inserts a string as it is and any other value through Python's built-in
  conversion to \<open>str\<close>. That conversion is no part of this program (for containers it
  depends on \<open>repr\<close> and the Unicode tables), so it is the parameter \<open>fmt\<close>.
\<close>

definition fstr :: "(json \<Rightarrow> pystr) \<Rightarrow> json \<Rightarrow> pystr" where
  "fstr fmt v = (case v of JStr s \<Rightarrow> s | _ \<Rightarrow> fmt v)"

text \<open>\<open>test.get(a, {}).get(b, '')\<close>\<close>

definition get2 :: "json \<Rightarrow> pystr \<Rightarrow> pystr \<Rightarrow> exn + json" where
  "get2 test a b = then_do (py_get test a (JObj [])) (\<lambda>x. py_get x b (JStr []))"

text \<open>
  \<open>', '.join(f"{k}: {v}" for k, v in test.get('categoryClassification', {}).items())\<close>
\<close>

definition category_classification :: "(json \<Rightarrow> pystr) \<Rightarrow> json \<Rightarrow> exn + pystr" where
  "category_classification fmt test =
     then_do (py_get test (py ''categoryClassification'') (JObj [])) (\<lambda>cc.
     then_do (py_items cc) (\<lambda>kvs.
     Inr (py_join (py '', '') (map (\<lambda>(k, v). k @ py '': '' @ fstr fmt v) kvs))))"

text \<open>
  A row is the \<open>result\<close> dictionary: its keys are the column names, in insertion order.
\<close>

type_synonym row = "(string \<times> json) list"

text \<open>The body of the inner \<open>try\<close> (lines 42 to 65): the row, or the exception raised.\<close>

definition normalize_entry :: "(json \<Rightarrow> pystr) \<Rightarrow> json \<Rightarrow> exn + row" where
  "normalize_entry fmt test =
     then_do (get2 test (py ''testID'') (py ''id'')) (\<lambda>test_id.
     then_do (get2 test (py ''catalogInfo'') (py ''description'')) (\<lambda>test_text.
     then_do (py_get test (py ''state'') (JStr [])) (\<lambda>state.
     then_do (category_classification fmt test) (\<lambda>cc.
     then_do (get2 test (py ''catalogInfo'') (py ''exceptionProcess'')) (\<lambda>exception_process.
     then_do (get2 test (py ''catalogInfo'') (py ''remediation'')) (\<lambda>remediation.
     let result = [(''Test_Id'', test_id), (''Test_Text'', test_text), (''State'', state),
                   (''Category_Classification'', JStr cc),
                   (''Exception_Process'', exception_process),
                   (''Remediation'', remediation)] in
     then_do (py_get test (py ''capturedTestOutput'') (JStr [])) (\<lambda>captured_output.
     then_do (filtered_output_str captured_output) (\<lambda>filtered.
     then_do (py_get test (py ''state'') JNull) (\<lambda>st.
     if st \<noteq> JStr (py ''passed'') then
       then_do (get2 test (py ''catalogInfo'') (py ''bestPracticeReference'')) (\<lambda>bp.
       Inr (result @ [(''Capture_Output'', JStr filtered), (''Best_Practice_Link'', bp)]))
     else Inr result)))))))))"

text \<open>
  \<open>print\<close> encodes its text for standard output and raises \<open>UnicodeEncodeError\<close> when
  the encoding has no bytes for one of its characters (a lone surrogate, which \<open>json.load\<close>
  accepts in a key, has none in UTF-8). The encoding belongs to the surroundings of a run, so
  what it encodes is the parameter \<open>enc\<close>. The warning of line 67 is ASCII but for the key:
  \<^verbatim>\<open>print(f"Warning: Error processing test {key}: {e}")\<close>.
\<close>

datatype warning = Warning pystr exn

text \<open>
  The loop over \<open>claim_results.items()\<close>: an entry that raises is reported on standard
  output (the key and the exception) and left out; the rows keep the order of the items. The
  handler is inside the outer \<open>try\<close>: when its \<open>print\<close> raises, the loop ends with that
  exception and the rows collected so far are lost.
\<close>

fun process_results ::
  "(json \<Rightarrow> pystr) \<Rightarrow> (pystr \<Rightarrow> bool) \<Rightarrow> (pystr \<times> json) list \<Rightarrow> warning list \<times> (exn + row list)" where
  "process_results fmt enc [] = ([], Inr [])"
| "process_results fmt enc ((key, test) # rest) =
     (case normalize_entry fmt test of
        Inr result \<Rightarrow>
          (let (printed, results) = process_results fmt enc rest
           in (printed, then_do results (\<lambda>rs. Inr (result # rs))))
      | Inl e \<Rightarrow>
          if enc key then
            (let (printed, results) = process_results fmt enc rest
             in (Warning key e # printed, results))
          else ([], Inl UnicodeEncodeError))"

subsection \<open>Comparing and sorting\<close>

text \<open>\<open>==\<close> on values of \<open>json.load\<close>; \<open>bool\<close> is a subclass of \<open>int\<close>.\<close>

fun num_of :: "json \<Rightarrow> int option" where
  "num_of (JInt n) = Some n"
| "num_of (JBool b) = Some (if b then 1 else 0)"
| "num_of _ = None"

fun py_eq :: "json \<Rightarrow> json \<Rightarrow> bool"
  and py_eq_list :: "json list \<Rightarrow> json list \<Rightarrow> bool"
  and py_eq_items :: "(pystr \<times> json) list \<Rightarrow> (pystr \<times> json) list \<Rightarrow> bool" where
  "py_eq JNull b = (b = JNull)"
| "py_eq (JBool x) b = (num_of b = Some (if x then 1 else 0))"
| "py_eq (JInt n) b = (num_of b = Some n)"
| "py_eq (JStr s) b = (b = JStr s)"
| "py_eq (JArr xs) b = (case b of JArr ys \<Rightarrow> py_eq_list xs ys | _ \<Rightarrow> False)"
| "py_eq (JObj xs) b =
     (case b of JObj ys \<Rightarrow> length xs = length ys \<and> py_eq_items xs ys | _ \<Rightarrow> False)"
| "py_eq_list [] ys = (ys = [])"
| "py_eq_list (x # xs) ys = (case ys of [] \<Rightarrow> False | y # ys' \<Rightarrow> py_eq x y \<and> py_eq_list xs ys')"
| "py_eq_items [] ys = True"
| "py_eq_items ((k, v) # xs) ys =
     ((case map_of ys k of None \<Rightarrow> False | Some w \<Rightarrow> py_eq v w) \<and> py_eq_items xs ys)"

text \<open>
  \<open><\<close>: defined between two strings, between two numbers and between two lists (at the
  first position where they differ; else the shorter one is smaller); \<open>TypeError\<close> otherwise.
\<close>

fun py_lt :: "json \<Rightarrow> json \<Rightarrow> exn + bool"
  and py_lt_list :: "json list \<Rightarrow> json list \<Rightarrow> exn + bool" where
  "py_lt (JStr a) b = (case b of JStr c \<Rightarrow> Inr (a < c) | _ \<Rightarrow> Inl TypeError)"
| "py_lt (JInt n) b = (case num_of b of Some m \<Rightarrow> Inr (n < m) | None \<Rightarrow> Inl TypeError)"
| "py_lt (JBool x) b =
     (case num_of b of Some m \<Rightarrow> Inr ((if x then 1 else 0) < m) | None \<Rightarrow> Inl TypeError)"
| "py_lt (JArr xs) b = (case b of JArr ys \<Rightarrow> py_lt_list xs ys | _ \<Rightarrow> Inl TypeError)"
| "py_lt JNull b = Inl TypeError"
| "py_lt (JObj xs) b = Inl TypeError"
| "py_lt_list [] ys = Inr (ys \<noteq> [])"
| "py_lt_list (x # xs) ys =
     (case ys of [] \<Rightarrow> Inr False
      | y # ys' \<Rightarrow> if py_eq x y then py_lt_list xs ys' else py_lt x y)"

text \<open>
  \<open>sorted(xs, key=lambda r: r[k])\<close>. The keys are computed first (\<open>r[k]\<close> raises
  \<open>KeyError\<close> on a row without \<open>k\<close>), then the rows are sorted on them with \<open><\<close>, stably.
  Python's list sort is modelled as a stable insertion sort that uses the same \<open><\<close>: the two
  agree on the result whenever no comparison raises, and both raise when two keys of the list
  cannot be compared by type.
\<close>

fun row_item :: "row \<Rightarrow> string \<Rightarrow> exn + json" where
  "row_item r k = (case map_of r k of Some v \<Rightarrow> Inr v | None \<Rightarrow> Inl KeyError)"

fun keyed :: "string \<Rightarrow> row list \<Rightarrow> exn + (json \<times> row) list" where
  "keyed k [] = Inr []"
| "keyed k (r # rs) =
     then_do (row_item r k) (\<lambda>v. then_do (keyed k rs) (\<lambda>krs. Inr ((v, r) # krs)))"

fun insort_py :: "json \<times> row \<Rightarrow> (json \<times> row) list \<Rightarrow> exn + (json \<times> row) list" where
  "insort_py x [] = Inr [x]"
| "insort_py x (y # ys) =
     then_do (py_lt (fst y) (fst x)) (\<lambda>lt.
       if lt then then_do (insort_py x ys) (\<lambda>zs. Inr (y # zs)) else Inr (x # y # ys))"

fun sort_py :: "(json \<times> row) list \<Rightarrow> exn + (json \<times> row) list" where
  "sort_py [] = Inr []"
| "sort_py (x # xs) = then_do (sort_py xs) (insort_py x)"

definition py_sorted :: "string \<Rightarrow> row list \<Rightarrow> exn + row list" where
  "py_sorted k rs = then_do (keyed k rs) (\<lambda>krs. then_do (sort_py krs) (\<lambda>s. Inr (map snd s)))"

text \<open>\<open>[r for r in results if r['State'] == state]\<close>; only a string is equal to a string.\<close>

fun with_state :: "pystr \<Rightarrow> row list \<Rightarrow> exn + row list" where
  "with_state state [] = Inr []"
| "with_state state (r # rs) =
     then_do (row_item r ''State'') (\<lambda>v.
     then_do (with_state state rs) (\<lambda>xs. Inr (if v = JStr state then r # xs else xs)))"

definition bucket :: "pystr \<Rightarrow> row list \<Rightarrow> exn + row list" where
  "bucket state results = then_do (with_state state results) (py_sorted ''Test_Id'')"

subsection \<open>\<open>extract_test_results\<close>\<close>

type_synonym extracted = "row list \<times> nat \<times> nat \<times> nat \<times> nat"

text \<open>Lines 71 to 85: the four buckets, their sizes, and the buckets in a row.\<close>

definition sort_tests :: "row list \<Rightarrow> exn + extracted" where
  "sort_tests results =
     then_do (bucket (py ''failed'') results) (\<lambda>failed_tests.
     then_do (bucket (py ''error'') results) (\<lambda>error_tests.
     then_do (bucket (py ''skipped'') results) (\<lambda>skipped_tests.
     then_do (bucket (py ''passed'') results) (\<lambda>passed_tests.
     Inr (failed_tests @ error_tests @ skipped_tests @ passed_tests,
          length failed_tests, length error_tests, length skipped_tests,
          length passed_tests)))))"

text \<open>\<open>data.get('claim', {}).get('results', {})\<close>\<close>

definition claim_results :: "json \<Rightarrow> exn + json" where
  "claim_results data =
     then_do (py_get data (py ''claim'') (JObj [])) (\<lambda>c. py_get c (py ''results'') (JObj []))"

text \<open>
  The body of the outer \<open>try\<close>: what was printed, and the value returned or the
  exception raised.
\<close>

definition extract_body ::
  "(json \<Rightarrow> pystr) \<Rightarrow> (pystr \<Rightarrow> bool) \<Rightarrow> json \<Rightarrow> warning list \<times> (exn + extracted)" where
  "extract_body fmt enc data =
     (case claim_results data of
        Inl e \<Rightarrow> ([], Inl e)
      | Inr cr \<Rightarrow>
          if \<not> truthy cr then ([], Inl (ValueError No_test_results))
          else (case py_items cr of
                  Inl e \<Rightarrow> ([], Inl e)
                | Inr items \<Rightarrow>
                    (let (printed, results) = process_results fmt enc items
                     in (printed, then_do results sort_tests))))"

text \<open>The whole function: any exception of the body is raised again as a \<open>ValueError\<close>.\<close>

definition extract_test_results ::
  "(json \<Rightarrow> pystr) \<Rightarrow> (pystr \<Rightarrow> bool) \<Rightarrow> json \<Rightarrow> warning list \<times> (exn + extracted)" where
  "extract_test_results fmt enc data =
     (case extract_body fmt enc data of
        (printed, Inl e) \<Rightarrow> (printed, Inl (ValueError (Error_extracting e)))
      | (printed, Inr r) \<Rightarrow> (printed, Inr r))"

section \<open>The worksheet\<close>

text \<open>
  The part of an openpyxl worksheet the program uses: a dictionary from (row, column), both
  counted from 1, to cells, and the row counter of \<open>append\<close>. A cell has a value (\<open>JNull\<close>
  for \<open>None\<close>) and four style attributes (\<open>None\<close> for the default of the workbook). The
  library's own checks of a value (it rejects lists, dictionaries and some control
  characters, and cuts a string at 32767 characters) are not modelled: a cell stores the value
  it is given. Column widths, row heights and the title of the sheet are left out.
\<close>

datatype font = Font "string option" "bool option" "string option"
  \<comment> \<open>\<open>Font(name, bold, color)\<close>\<close>

datatype fill = PatternFill string
  \<comment> \<open>\<open>PatternFill(start_color=c, end_color=c, fill_type='solid')\<close>\<close>

datatype border = Border string string
  \<comment> \<open>the four sides alike: \<open>Side(border_style, color)\<close>\<close>

datatype alignment = Alignment "string option" "string option" "bool option"
  \<comment> \<open>\<open>Alignment(horizontal, vertical, wrap_text)\<close>\<close>

record cell =
  c_value :: json
  c_font :: "font option"
  c_fill :: "fill option"
  c_border :: "border option"
  c_alignment :: "alignment option"

type_synonym pos = "nat \<times> nat"

record worksheet =
  cells :: "(pos \<times> cell) list"
  current_row :: nat

definition empty_cell :: cell where
  "empty_cell = \<lparr>c_value = JNull, c_font = None, c_fill = None, c_border = None,
                  c_alignment = None\<rparr>"

definition new_worksheet :: worksheet where
  "new_worksheet = \<lparr>cells = [], current_row = 0\<rparr>"

definition cell_at :: "worksheet \<Rightarrow> pos \<Rightarrow> cell option" where
  "cell_at ws p = map_of (cells ws) p"

text \<open>The value and the font of a cell of the sheet; a cell that is not there has neither.\<close>

definition value_at :: "worksheet \<Rightarrow> pos \<Rightarrow> json" where
  "value_at ws p = (case cell_at ws p of Some c \<Rightarrow> c_value c | None \<Rightarrow> JNull)"

definition font_at :: "worksheet \<Rightarrow> pos \<Rightarrow> font option" where
  "font_at ws p = (case cell_at ws p of Some c \<Rightarrow> c_font c | None \<Rightarrow> None)"

text \<open>
  \<open>ws.cell(row, column)\<close> and every access through \<open>ws[...]\<close> or an iterator creates
  the cell when it is missing; \<open>upd_cell f\<close> is such an access followed by the
  assignments \<open>f\<close> to attributes of the cell.
\<close>

definition get_cell :: "worksheet \<Rightarrow> pos \<Rightarrow> cell" where
  "get_cell ws p = (case cell_at ws p of Some c \<Rightarrow> c | None \<Rightarrow> empty_cell)"

definition upd_cell :: "(cell \<Rightarrow> cell) \<Rightarrow> pos \<Rightarrow> worksheet \<Rightarrow> worksheet" where
  "upd_cell f p ws =
     ws\<lparr>cells := AList.update p (f (get_cell ws p)) (cells ws),
        current_row := max (fst p) (current_row ws)\<rparr>"

text \<open>A loop over cells: \<open>f p\<close> is the body for the cell at \<open>p\<close>.\<close>

definition for_cells :: "(pos \<Rightarrow> cell \<Rightarrow> cell) \<Rightarrow> pos list \<Rightarrow> worksheet \<Rightarrow> worksheet" where
  "for_cells f ps ws = fold (\<lambda>p. upd_cell (f p) p) ps ws"

text \<open>\<open>ws[coordinate] = v\<close>\<close>

definition set_value :: "pos \<Rightarrow> json \<Rightarrow> worksheet \<Rightarrow> worksheet" where
  "set_value p v ws = upd_cell (\<lambda>c. c\<lparr>c_value := v\<rparr>) p ws"

definition max_row :: "worksheet \<Rightarrow> nat" where
  "max_row ws = fold max (map (\<lambda>(p, c). fst p) (cells ws)) 1"

definition max_column :: "worksheet \<Rightarrow> nat" where
  "max_column ws = fold max (map (\<lambda>(p, c). snd p) (cells ws)) 1"

definition min_row :: "worksheet \<Rightarrow> nat" where
  "min_row ws =
     (case map (\<lambda>(p, c). fst p) (cells ws) of [] \<Rightarrow> 1 | r # rs \<Rightarrow> fold min rs r)"

text \<open>The cells of \<open>iter_rows\<close>, row by row, and of \<open>iter_cols\<close>, column by column.\<close>

definition rows_range :: "nat \<Rightarrow> nat \<Rightarrow> nat \<Rightarrow> nat \<Rightarrow> pos list" where
  "rows_range r0 r1 c0 c1 = concat (map (\<lambda>r. map (\<lambda>c. (r, c)) [c0..<Suc c1]) [r0..<Suc r1])"

definition cols_range :: "nat \<Rightarrow> nat \<Rightarrow> nat \<Rightarrow> nat \<Rightarrow> pos list" where
  "cols_range r0 r1 c0 c1 = concat (map (\<lambda>c. map (\<lambda>r. (r, c)) [r0..<Suc r1]) [c0..<Suc c1])"

text \<open>\<open>ws['C']\<close> is column 3 from row 1 to \<open>max_row\<close>; \<open>ws[9]\<close> is row 9 from column 1 to
  \<open>max_column\<close>.\<close>

definition column_cells :: "worksheet \<Rightarrow> nat \<Rightarrow> pos list" where
  "column_cells ws c = cols_range 1 (max_row ws) c c"

definition row_cells :: "worksheet \<Rightarrow> nat \<Rightarrow> pos list" where
  "row_cells ws r = rows_range r r 1 (max_column ws)"

text \<open>\<open>ws.append(values)\<close>: a new row below the row counter, one cell for each value.\<close>

definition append_row :: "json list \<Rightarrow> worksheet \<Rightarrow> worksheet" where
  "append_row vs ws =
     (let r = Suc (current_row ws) in
      (fold (\<lambda>(c, v) w. w\<lparr>cells := AList.update (r, c) (empty_cell\<lparr>c_value := v\<rparr>) (cells w)\<rparr>)
            (zip [1..<Suc (length vs)] vs) ws)\<lparr>current_row := r\<rparr>)"

text \<open>\<open>ws.insert_rows(idx, amount)\<close>: every cell from row \<open>idx\<close> on moves down.\<close>

definition insert_rows :: "nat \<Rightarrow> nat \<Rightarrow> worksheet \<Rightarrow> worksheet" where
  "insert_rows idx amount ws =
     ws\<lparr>cells := map (\<lambda>((r, c), x). ((if idx \<le> r then r + amount else r, c), x)) (cells ws)\<rparr>"

text \<open>\<open>xs[lo:hi]\<close> with Python's treatment of negative and too large bounds.\<close>

definition slice_bound :: "nat \<Rightarrow> int \<Rightarrow> nat" where
  "slice_bound n i = (if i < 0 then nat (max 0 (int n + i)) else min n (nat i))"

definition py_slice :: "'a list \<Rightarrow> int \<Rightarrow> int \<Rightarrow> 'a list" where
  "py_slice xs lo hi =
     (let l = slice_bound (length xs) lo; h = slice_bound (length xs) hi
      in take (h - l) (drop l xs))"

text \<open>
  A loop over cells: \<open>q x\<close> is the cell the iteration \<open>x\<close> reaches and \<open>g x\<close> what its
  body assigns there.
\<close>

definition for_each ::
  "('a \<Rightarrow> pos) \<Rightarrow> ('a \<Rightarrow> cell \<Rightarrow> cell) \<Rightarrow> 'a list \<Rightarrow> worksheet \<Rightarrow> worksheet" where
  "for_each q g xs ws = fold (\<lambda>x. upd_cell (g x) (q x)) xs ws"

section \<open>The report renderer\<close>

subsection \<open>\<open>add_test_results_to_worksheet\<close>\<close>

definition headers :: "string list" where
  "headers = [''Test_Id'', ''Test_Text'', ''State'', ''Capture_Output'',
              ''Category_Classification'', ''Exception_Process'', ''Remediation'',
              ''Best_Practice_Link'']"

text \<open>\<open>test.get(header, '')\<close>\<close>

definition row_get :: "row \<Rightarrow> string \<Rightarrow> json" where
  "row_get test header = (case map_of test header of Some v \<Rightarrow> v | None \<Rightarrow> JStr [])"

definition row_data :: "row \<Rightarrow> json list" where
  "row_data test = map (row_get test) headers"

definition add_test_results_to_worksheet :: "row list \<Rightarrow> worksheet \<Rightarrow> worksheet" where
  "add_test_results_to_worksheet sorted_tests ws =
     fold (\<lambda>test. append_row (row_data test)) sorted_tests
       (append_row (map (\<lambda>h. JStr (py h)) headers) ws)"

subsection \<open>\<open>apply_basic_styling\<close>\<close>

definition bold_font :: font where "bold_font = Font None (Some True) None"
definition arial_font :: font where "arial_font = Font (Some ''Arial'') None None"
definition header_font :: font where "header_font = Font None (Some True) None"
definition blue_bold_font :: font where
  "blue_bold_font = Font (Some ''Arial'') (Some False) (Some ''0000FF'')"

definition red_fill :: fill where "red_fill = PatternFill ''FF0000''"
definition dark_red_fill :: fill where "dark_red_fill = PatternFill ''8B0000''"
definition orange_fill :: fill where "orange_fill = PatternFill ''FFE599''"
definition blue_fill :: fill where "blue_fill = PatternFill ''AED6F1''"
definition green_fill :: fill where "green_fill = PatternFill ''90EE90''"
definition yellow_fill :: fill where "yellow_fill = PatternFill ''FFFFCC''"
definition light_green_fill :: fill where "light_green_fill = PatternFill ''90EE90''"
definition total_fill :: fill where "total_fill = PatternFill ''00FFFF''"

definition header_border :: border where "header_border = Border ''medium'' ''000000''"
definition thin_border :: border where "thin_border = Border ''thin'' ''D3D3D3''"

definition basic_style :: "pos \<Rightarrow> cell \<Rightarrow> cell" where
  "basic_style p c =
     (let c = c\<lparr>c_font := Some arial_font\<rparr> in
      if fst p = 1 then
        c\<lparr>c_font := Some header_font, c_fill := Some blue_fill, c_border := Some header_border\<rparr>
      else if snd p = 3 then
        (if c_value c = JStr (py ''failed'') then c\<lparr>c_fill := Some red_fill\<rparr>
         else if c_value c = JStr (py ''error'') then c\<lparr>c_fill := Some dark_red_fill\<rparr>
         else if c_value c = JStr (py ''skipped'') then c\<lparr>c_fill := Some orange_fill\<rparr>
         else if c_value c = JStr (py ''passed'') then c\<lparr>c_fill := Some green_fill\<rparr>
         else c)
      else c)"

definition apply_basic_styling :: "worksheet \<Rightarrow> worksheet" where
  "apply_basic_styling ws =
     for_each id basic_style (rows_range 1 (max_row ws) 1 (max_column ws)) ws"

subsection \<open>\<open>set_column_formatting\<close>\<close>

definition column_alignment :: "pos \<Rightarrow> cell \<Rightarrow> cell" where
  "column_alignment p c =
     (if snd p = 3 then c\<lparr>c_alignment := Some (Alignment (Some ''center'') None None)\<rparr>
      else c\<lparr>c_alignment := Some (Alignment None None (Some True))\<rparr>)"

definition set_column_formatting :: "worksheet \<Rightarrow> worksheet" where
  "set_column_formatting ws =
     for_each id column_alignment (cols_range 1 (max_row ws) 1 (max_column ws)) ws"

subsection \<open>\<open>add_summary_section\<close>\<close>

definition summary_fill :: "(pystr \<times> fill) list" where
  "summary_fill =
     [(py ''Summary'', blue_fill), (py ''Total'', total_fill), (py ''Failed'', red_fill),
      (py ''Error'', dark_red_fill), (py ''Skipped'', orange_fill),
      (py ''Passed'', green_fill), (py ''Job-Id'', yellow_fill)]"

definition summary_style :: "pos \<Rightarrow> cell \<Rightarrow> cell" where
  "summary_style p c =
     (let c = c\<lparr>c_font := Some bold_font\<rparr> in
      case c_value c of
        JStr s \<Rightarrow> (case map_of summary_fill s of Some f \<Rightarrow> c\<lparr>c_fill := Some f\<rparr> | None \<Rightarrow> c)
      | _ \<Rightarrow> c)"

definition job_url :: "pystr \<Rightarrow> pystr" where
  "job_url dci_jobid = py ''https://www.distributed-ci.io/jobs/'' @ dci_jobid"

definition summary_values ::
  "row list \<Rightarrow> nat \<Rightarrow> nat \<Rightarrow> nat \<Rightarrow> nat \<Rightarrow> pystr \<Rightarrow> (pos \<times> json) list" where
  "summary_values sorted_tests failed_tests error_tests skipped_tests passed_tests dci_jobid =
     [((1, 1), JStr (py ''Summary'')), ((2, 1), JStr (py ''Total'')),
      ((3, 1), JStr (py ''Failed'')), ((4, 1), JStr (py ''Error'')),
      ((5, 1), JStr (py ''Skipped'')), ((6, 1), JStr (py ''Passed'')),
      ((2, 2), JInt (int (length sorted_tests))), ((3, 2), JInt (int failed_tests)),
      ((4, 2), JInt (int error_tests)), ((5, 2), JInt (int skipped_tests)),
      ((6, 2), JInt (int passed_tests)),
      ((7, 1), JStr (py ''Job-Id'')), ((7, 2), JStr (job_url dci_jobid)),
      ((8, 1), JStr []), ((9, 1), JStr [])]"

text \<open>A run of assignments \<open>ws[coordinate] = v\<close>, in order.\<close>

definition set_values :: "(pos \<times> json) list \<Rightarrow> worksheet \<Rightarrow> worksheet" where
  "set_values pvs ws = fold (\<lambda>(p, v). set_value p v) pvs ws"

definition summary_styles :: "worksheet \<Rightarrow> worksheet" where
  \<comment> \<open>\<open>for row in ws.iter_rows(min_row=1, max_row=8): for cell in row: ...\<close>\<close>
  "summary_styles ws = for_each id summary_style (rows_range 1 8 1 (max_column ws)) ws"

definition add_summary_section ::
  "row list \<Rightarrow> nat \<Rightarrow> nat \<Rightarrow> nat \<Rightarrow> nat \<Rightarrow> pystr \<Rightarrow> worksheet \<Rightarrow> worksheet" where
  "add_summary_section sorted_tests failed_tests error_tests skipped_tests passed_tests
       dci_jobid ws =
     summary_styles
       (set_values (summary_values sorted_tests failed_tests error_tests skipped_tests
                      passed_tests dci_jobid)
         (insert_rows 1 9 ws))"

subsection \<open>\<open>add_version_information\<close>\<close>

definition version_keys :: "pystr list" where
  "version_keys = [py ''k8s'', py ''ocClient'', py ''ocp'', py ''certSuite'',
                   py ''claimFormat'', py ''certSuiteGitCommit'']"

fun gets :: "json \<Rightarrow> pystr list \<Rightarrow> json \<Rightarrow> exn + json list" where
  "gets d [] dflt = Inr []"
| "gets d (k # ks) dflt =
     then_do (py_get d k dflt) (\<lambda>v. then_do (gets d ks dflt) (\<lambda>vs. Inr (v # vs)))"

definition version_values :: "json \<Rightarrow> exn + json list" where
  "version_values data =
     then_do (py_get data (py ''claim'') (JObj [])) (\<lambda>c.
     then_do (py_get c (py ''versions'') (JObj [])) (\<lambda>versions.
     gets versions version_keys (JStr (py ''N/A''))))"

definition version_labels :: "(pos \<times> json) list" where
  "version_labels =
     [((1, 3), JStr (py ''Component'')), ((1, 4), JStr (py ''Version'')),
      ((2, 3), JStr (py ''K8S'')), ((3, 3), JStr (py ''ocClient'')),
      ((4, 3), JStr (py ''OCP'')), ((5, 3), JStr (py ''CERTSUIT'')),
      ((6, 3), JStr (py ''claimF'')), ((7, 3), JStr (py ''certGitCom''))]"

text \<open>When reading the versions raises, a warning is printed and nothing is written.\<close>

definition add_version_information :: "json \<Rightarrow> worksheet \<Rightarrow> worksheet" where
  "add_version_information data ws =
     (case version_values data of
        Inl e \<Rightarrow> ws
      | Inr vs \<Rightarrow> set_values (version_labels @ zip (map (\<lambda>r. (r, 4)) [2..<8]) vs) ws)"

subsection \<open>\<open>apply_final_formatting\<close>\<close>

definition keywords_list :: "pystr list" where
  "keywords_list = [py ''Extended:'', py ''FarEdge:'', py ''NonTelco:'', py ''Telco:'']"

text \<open>\<open>isinstance(cell.value, str) and any(keyword in cell.value for keyword in keywords)\<close>\<close>

definition has_keyword :: "json \<Rightarrow> bool" where
  "has_keyword v = (case v of JStr s \<Rightarrow> list_ex (\<lambda>keyword. py_contains keyword s) keywords_list
                    | _ \<Rightarrow> False)"

definition keyword_font :: "pos \<Rightarrow> cell \<Rightarrow> cell" where
  "keyword_font p c = (if has_keyword (c_value c) then c\<lparr>c_font := Some blue_bold_font\<rparr> else c)"

definition center :: "pos \<Rightarrow> cell \<Rightarrow> cell" where
  "center p c = c\<lparr>c_alignment := Some (Alignment (Some ''center'') (Some ''center'') (Some False))\<rparr>"

definition left_center :: "pos \<Rightarrow> cell \<Rightarrow> cell" where
  "left_center p c = c\<lparr>c_alignment := Some (Alignment (Some ''left'') (Some ''center'') None)\<rparr>"

definition version_style :: "nat \<times> pos \<Rightarrow> cell \<Rightarrow> cell" where
  "version_style ip c =
     (if fst ip \<in> set [1, 2, 3, 4, 5, 6]
      then c\<lparr>c_border := Some thin_border, c_fill := Some yellow_fill\<rparr> else c)"

definition summary_border :: "nat \<times> pos \<Rightarrow> cell \<Rightarrow> cell" where
  "summary_border ip c =
     (if fst ip \<in> set [1, 2, 3, 4, 5, 6] then c\<lparr>c_border := Some thin_border\<rparr> else c)"

definition state_border :: "pos \<Rightarrow> cell \<Rightarrow> cell" where
  "state_border p c = c\<lparr>c_border := Some thin_border\<rparr>"

definition light_green :: "pos \<Rightarrow> cell \<Rightarrow> cell" where
  "light_green p c = c\<lparr>c_fill := Some light_green_fill\<rparr>"

text \<open>
  \<open>for cell in ws[col][lo:hi]\<close>: the whole column is read (which creates its cells), then
  the bounds, then the cells of the slice are aligned.
\<close>

definition align_slice ::
  "nat \<Rightarrow> (worksheet \<Rightarrow> int) \<Rightarrow> (worksheet \<Rightarrow> int) \<Rightarrow> worksheet \<Rightarrow> worksheet" where
  "align_slice col lo hi ws =
     (let ps = column_cells ws col;
          ws = for_each id (\<lambda>p c. c) ps ws
      in for_each id left_center (py_slice ps (lo ws) (hi ws)) ws)"

text \<open>The steps of the function, in the order of the source.\<close>

definition center_rows :: "worksheet \<Rightarrow> worksheet" where
  \<comment> \<open>\<open>for row_number in [1, 9]: for cell in ws[row_number]: ...\<close>\<close>
  "center_rows ws = fold (\<lambda>row_number w. for_each id center (row_cells w row_number) w) [1, 9] ws"

definition version_styles :: "worksheet \<Rightarrow> worksheet" where
  \<comment> \<open>\<open>for i, cell in enumerate(ws['C']): if i in [1, 2, 3, 4, 5, 6]: ...\<close>\<close>
  "version_styles ws = for_each snd version_style (enumerate 0 (column_cells ws 3)) ws"

definition summary_borders :: "worksheet \<Rightarrow> worksheet" where
  \<comment> \<open>\<open>for i, cell in enumerate(ws['A']): if i in [1, 2, 3, 4, 5, 6]: ...\<close>\<close>
  "summary_borders ws = for_each snd summary_border (enumerate 0 (column_cells ws 1)) ws"

definition state_borders :: "worksheet \<Rightarrow> worksheet" where
  \<comment> \<open>\<open>for i in range(10, ws.max_row + 1): ws[f'C{i}'].border = border\<close>\<close>
  "state_borders ws = for_each id state_border (map (\<lambda>i. (i, 3)) [10..<Suc (max_row ws)]) ws"

definition header_fills :: "worksheet \<Rightarrow> worksheet" where
  \<comment> \<open>\<open>ws['C1'].fill = ...; ws['D1'].fill = ...\<close>\<close>
  "header_fills ws = for_each id light_green [(1, 3), (1, 4)] ws"

definition keyword_fonts :: "worksheet \<Rightarrow> worksheet" where
  \<comment> \<open>\<open>for row in ws.iter_rows(min_row=2, max_row=ws.max_row, min_col=1, max_col=6): ...\<close>\<close>
  "keyword_fonts ws = for_each id keyword_font (rows_range 2 (max_row ws) 1 6) ws"

definition apply_final_formatting :: "worksheet \<Rightarrow> worksheet" where
  "apply_final_formatting ws =
     keyword_fonts
       (align_slice 4 (\<lambda>w. int (min_row w) - 2) (\<lambda>w. int (max_row w) - 5)
         (align_slice 2 (\<lambda>w. int (min_row w) - 1) (\<lambda>w. int (max_row w) - 6)
           (header_fills (state_borders (summary_borders (version_styles (center_rows ws)))))))"

subsection \<open>\<open>generate_cert_test_excel_report\<close>\<close>

text \<open>The worksheet the program builds from the claim and the extracted rows.\<close>

definition build_report ::
  "json \<Rightarrow> extracted \<Rightarrow> pystr \<Rightarrow> worksheet" where
  "build_report data ex dci_jobid =
     (case ex of (sorted_tests, total_failed, total_error, total_skipped, total_passed) \<Rightarrow>
        apply_final_formatting
          (add_version_information data
            (add_summary_section sorted_tests total_failed total_error total_skipped
               total_passed dci_jobid
              (set_column_formatting
                (apply_basic_styling
                  (add_test_results_to_worksheet sorted_tests new_worksheet))))))"

text \<open>\<open>k in x\<close> for a string \<open>k\<close>.\<close>

fun py_in :: "pystr \<Rightarrow> json \<Rightarrow> exn + bool" where
  "py_in k (JObj kvs) = Inr (k \<in> set (map fst kvs))"
| "py_in k (JArr xs) = Inr (JStr k \<in> set xs)"
| "py_in k (JStr s) = Inr (py_contains k s)"
| "py_in k _ = Inl TypeError"

text \<open>
  What is at the input path: no file, a file that is not JSON, or a file with a JSON
  value.
\<close>

datatype file_state = Missing | Unparsable | Parsed json

text \<open>
  The body of the \<open>try\<close>: the worksheet saved, or the exception raised. \<open>can_save\<close> tells
  whether \<open>wb.save(output_file)\<close> succeeds.
\<close>

definition generate_body ::
  "(json \<Rightarrow> pystr) \<Rightarrow> (pystr \<Rightarrow> bool) \<Rightarrow> file_state \<Rightarrow> bool \<Rightarrow> pystr \<Rightarrow> exn + worksheet" where
  "generate_body fmt enc input can_save dci_jobid =
     (case input of
        Missing \<Rightarrow> Inl FileNotFoundError
      | Unparsable \<Rightarrow> Inl JSONDecodeError
      | Parsed data \<Rightarrow>
          then_do (py_in (py ''claim'') data) (\<lambda>has_claim.
          if \<not> has_claim then Inl (ValueError Missing_claim)
          else
            then_do (py_get data (py ''claim'') (JObj [])) (\<lambda>c.
            then_do (py_in (py ''results'') c) (\<lambda>has_results.
            if \<not> has_results then Inl (ValueError Missing_results)
            else
              then_do (snd (extract_test_results fmt enc data)) (\<lambda>ex.
              if can_save then Inr (build_report data ex dci_jobid) else Inl IOError)))))"

text \<open>
  How a call ends: \<open>sys.exit(code)\<close>, or a normal return after the workbook was saved.
  Each of the four handlers prints the error and calls \<open>sys.exit(1)\<close>; the message of an
  exception is ASCII (the one of \<open>UnicodeEncodeError\<close> escapes the character), and a handler
  whose \<open>print\<close> raised would end the interpreter with the status 1 as well.
\<close>

datatype outcome = Exit nat | Saved worksheet

definition generate_cert_test_excel_report ::
  "(json \<Rightarrow> pystr) \<Rightarrow> (pystr \<Rightarrow> bool) \<Rightarrow> file_state \<Rightarrow> bool \<Rightarrow> pystr \<Rightarrow> outcome" where
  "generate_cert_test_excel_report fmt enc input can_save dci_jobid =
     (case generate_body fmt enc input can_save dci_jobid of
        Inl e \<Rightarrow> Exit 1
      | Inr ws \<Rightarrow> Saved ws)"

section \<open>The command line\<close>

text \<open>
  The surroundings of a run: whether \<open>dcirc.sh\<close> is a file of the working directory, what
  is at a path, whether the output can be written, what standard output encodes, and what
  the download of the claim of a
  job to a path leaves there (\<open>None\<close> when \<open>download_dci_cert_claim_json\<close> ends in
  \<open>sys.exit(1)\<close>). The download itself runs the external \<open>dcictl\<close>. The arguments are
  the ones \<open>parser.parse_args()\<close> returned: a command line that it rejects ends the run
  before the first step below.
\<close>

record environment =
  dcirc_is_file :: bool
  stdout_encodes :: "pystr \<Rightarrow> bool"
  file_at :: "pystr \<Rightarrow> file_state"
  can_write :: "pystr \<Rightarrow> bool"
  download :: "pystr \<Rightarrow> pystr \<Rightarrow> file_state option"

record arguments =
  input_file :: pystr
  job_id :: "pystr option"
  output_file :: pystr

text \<open>\<open>check_file_exists\<close>: \<open>None\<close> when it returns, the exit code when it does not.\<close>

definition check_file_exists :: "bool \<Rightarrow> nat option" where
  "check_file_exists is_file = (if is_file then None else Some 0)"

definition main :: "(json \<Rightarrow> pystr) \<Rightarrow> environment \<Rightarrow> arguments \<Rightarrow> outcome" where
  "main fmt env args =
     (case check_file_exists (dcirc_is_file env) of
        Some code \<Rightarrow> Exit code
      | None \<Rightarrow>
          (case job_id args of
             Some j \<Rightarrow>
               (case download env (input_file args) j of
                  None \<Rightarrow> Exit 1
                | Some downloaded \<Rightarrow>
                    generate_cert_test_excel_report fmt (stdout_encodes env) downloaded
                      (can_write env (output_file args)) j)
           | None \<Rightarrow>
               generate_cert_test_excel_report fmt (stdout_encodes env)
                 (file_at env (input_file args)) (can_write env (output_file args))
                 (py ''12345'')))"

text \<open>The exit status of the process and the report it left.\<close>

fun exit_status :: "outcome \<Rightarrow> nat" where
  "exit_status (Exit code) = code"
| "exit_status (Saved ws) = 0"

fun report :: "outcome \<Rightarrow> worksheet option" where
  "report (Exit code) = None"
| "report (Saved ws) = Some ws"

section \<open>Notions of the specification\<close>

text \<open>The identifier and the state of a row, as strings, and the four recognized states.\<close>

definition str_of :: "json \<Rightarrow> pystr" where
  "str_of v = (case v of JStr s \<Rightarrow> s | _ \<Rightarrow> [])"

definition is_str :: "json \<Rightarrow> bool" where
  "is_str v = (case v of JStr s \<Rightarrow> True | _ \<Rightarrow> False)"

definition test_id :: "row \<Rightarrow> pystr" where
  "test_id r = str_of (row_get r ''Test_Id'')"

definition has_state :: "pystr \<Rightarrow> row \<Rightarrow> bool" where
  "has_state state r = (row_get r ''State'' = JStr state)"

definition recognized :: "row \<Rightarrow> bool" where
  "recognized r = (has_state (py ''failed'') r \<or> has_state (py ''error'') r
                   \<or> has_state (py ''skipped'') r \<or> has_state (py ''passed'') r)"

text \<open>
  The rows of the entries that normalize, in the order of the entries; the warnings of the
  others; and whether standard output encodes the keys of all those warnings.
\<close>

definition normalized :: "(json \<Rightarrow> pystr) \<Rightarrow> (pystr \<times> json) list \<Rightarrow> row list" where
  "normalized fmt items =
     List.map_filter (\<lambda>(key, test). case normalize_entry fmt test of
                                       Inr result \<Rightarrow> Some result | Inl e \<Rightarrow> None) items"

definition warnings :: "(json \<Rightarrow> pystr) \<Rightarrow> (pystr \<times> json) list \<Rightarrow> warning list" where
  "warnings fmt items =
     List.map_filter (\<lambda>(key, test). case normalize_entry fmt test of
                                       Inr result \<Rightarrow> None | Inl e \<Rightarrow> Some (Warning key e)) items"

definition printable :: "(pystr \<Rightarrow> bool) \<Rightarrow> (json \<Rightarrow> pystr) \<Rightarrow> (pystr \<times> json) list \<Rightarrow> bool" where
  "printable enc fmt items =
     list_all (\<lambda>(key, test). case normalize_entry fmt test of
                                Inr result \<Rightarrow> True | Inl e \<Rightarrow> enc key) items"

text \<open>
  A bucket as the specification describes it: the rows of one state, sorted ascending by
  identifier, rows with equal identifiers in their order of arrival.
\<close>

definition spec_bucket :: "pystr \<Rightarrow> row list \<Rightarrow> row list" where
  "spec_bucket state results = sort_key test_id (filter (has_state state) results)"

section \<open>Example inputs\<close>

text \<open>
  A test entry with an identifier and a state, one classification, a remediation text that
  names a classification, and three lines of captured output; and the row it becomes.
\<close>

definition example_test :: "string \<Rightarrow> string \<Rightarrow> json" where
  "example_test i state =
     JObj [(py ''testID'', JObj [(py ''id'', JStr (py i))]),
           (py ''state'', JStr (py state)),
           (py ''catalogInfo'', JObj [(py ''remediation'', JStr (py ''Telco: fix''))]),
           (py ''categoryClassification'', JObj [(py ''Telco'', JStr (py ''Mandatory''))]),
           (py ''capturedTestOutput'', JStr (py ''line1\<newline>INFO noisy\<newline>line2''))]"

definition example_row :: "string \<Rightarrow> string \<Rightarrow> row" where
  "example_row i state =
     [(''Test_Id'', JStr (py i)), (''Test_Text'', JStr []), (''State'', JStr (py state)),
      (''Category_Classification'', JStr (py ''Telco: Mandatory'')),
      (''Exception_Process'', JStr []), (''Remediation'', JStr (py ''Telco: fix''))]
     @ (if state = ''passed'' then []
        else [(''Capture_Output'', JStr (py ''line1\<newline>line2'')),
              (''Best_Practice_Link'', JStr [])])"

text \<open>The claim of the end-to-end scenario: failed \<open>B\<close>, passed \<open>A\<close>, skipped \<open>A\<close>.\<close>

definition example_items :: "(pystr \<times> json) list" where
  "example_items =
     [(py ''t1'', example_test ''B'' ''failed''), (py ''t2'', example_test ''A'' ''passed''),
      (py ''t3'', example_test ''A'' ''skipped'')]"

definition claim_of :: "(pystr \<times> json) list \<Rightarrow> json" where
  "claim_of items = JObj [(py ''claim'', JObj [(py ''results'', JObj items)])]"

definition example_claim :: json where
  "example_claim = claim_of example_items"

definition example_extracted :: extracted where
  "example_extracted =
     ([example_row ''B'' ''failed'', example_row ''A'' ''skipped'', example_row ''A'' ''passed''],
      1, 0, 1, 1)"

text \<open>The values of the examples are strings, so the conversion of other values is idle.\<close>

definition no_fmt :: "json \<Rightarrow> pystr" where
  "no_fmt v = []"

text \<open>
  Standard output in UTF-8: it encodes every code point but the surrogates, \<open>U+D800\<close> to
  \<open>U+DFFF\<close>.
\<close>

definition utf8_encodes :: "pystr \<Rightarrow> bool" where
  "utf8_encodes s = list_all (\<lambda>c. c < 55296 \<or> 57343 < c) s"

text \<open>An offline run in a directory with \<open>dcirc.sh\<close> and the example claim.\<close>

definition example_env :: environment where
  "example_env = \<lparr>dcirc_is_file = True, stdout_encodes = utf8_encodes,
                   file_at = (\<lambda>path. Parsed example_claim),
                   can_write = (\<lambda>path. True), download = (\<lambda>path job. None)\<rparr>"

definition example_args :: arguments where
  "example_args = \<lparr>input_file = py ''claim.json'', job_id = None,
                    output_file = py ''result.xlsx''\<rparr>"

text \<open>
  A claim without results, one whose second entry is no dictionary, and one where the key of
  that entry is the lone surrogate \<open>U+D800\<close>.
\<close>

definition empty_claim :: json where
  "empty_claim = claim_of []"




section \<open>Properties of the string methods\<close>

lemma then_do_Inr [simp]: "then_do (Inr x) f = f x"
  by (simp add: then_do_def)

lemma then_do_Inl [simp]: "then_do (Inl e) f = Inl e"
  by (simp add: then_do_def)

lemma then_do_eq_Inr: "then_do m f = Inr y \<longleftrightarrow> (\<exists>x. m = Inr x \<and> f x = Inr y)"
  by (cases m) simp_all

lemma starts_with_prefix: "starts_with p s = prefix p s"
  by (induction p s rule: starts_with.induct) simp_all

lemma py_contains_sublist: "py_contains sub s = sublist sub s"
  by (induction s) (simp_all add: starts_with_prefix sublist_Cons_right)

lemma split_from_not_Nil [simp]: "split_from sep cur s \<noteq> []"
  by (induction s arbitrary: cur) simp_all

lemma py_join_Cons: "py_join sep (x # xs) = (if xs = [] then x else x @ sep @ py_join sep xs)"
  by (cases xs) simp_all

lemma join_split_from: "py_join [sep] (split_from sep cur s) = cur @ s"
  by (induction s arbitrary: cur) (simp_all add: py_join_Cons)

lemma join_split: "py_join [sep] (py_split sep s) = s"
  by (simp add: py_split_def join_split_from)

lemma split_from_sublist: "l \<in> set (split_from sep cur s) \<Longrightarrow> sublist l (cur @ s)"
proof (induction s arbitrary: cur)
  case Nil
  then show ?case by simp
next
  case (Cons c cs)
  show ?case
  proof (cases "c = sep")
    case True
    with Cons.prems have "l = cur \<or> l \<in> set (split_from sep [] cs)" by simp
    then show ?thesis
    proof
      assume "l = cur" then show ?thesis by simp
    next
      assume "l \<in> set (split_from sep [] cs)"
      then have "sublist l cs" using Cons.IH [of "[]"] by simp
      then have "sublist l ((cur @ [c]) @ cs)" by (metis sublist_append)
      then show ?thesis by simp
    qed
  next
    case False
    with Cons.prems have "l \<in> set (split_from sep (cur @ [c]) cs)" by simp
    then have "sublist l ((cur @ [c]) @ cs)" by (rule Cons.IH)
    then show ?thesis by simp
  qed
qed

lemma split_sublist: "l \<in> set (py_split sep s) \<Longrightarrow> sublist l s"
  using split_from_sublist [of l sep "[]" s] by (simp add: py_split_def)

lemma strip_sublist: "sublist (py_strip s) s"
proof -
  have "sublist (dropWhile is_space (rev (dropWhile is_space s))) (rev (dropWhile is_space s))"
    by (rule sublist_dropWhile)
  then have "sublist (py_strip s) (dropWhile is_space s)"
    unfolding py_strip_def by (simp add: sublist_rev_left)
  moreover have "sublist (dropWhile is_space s) s" by (rule sublist_dropWhile)
  ultimately show ?thesis by (rule sublist_order.order.trans)
qed

lemma sublist_across:
  assumes "sublist sub (a @ c # b)" and "c \<notin> set sub"
  shows "sublist sub a \<or> sublist sub b"
proof -
  from assms(1) consider "sublist sub a" | "sublist sub (c # b)"
    | xs1 xs2 where "sub = xs1 @ xs2" "suffix xs1 a" "prefix xs2 (c # b)"
    by (auto simp: sublist_append)
  then show ?thesis
  proof cases
    case 1 then show ?thesis by simp
  next
    case 2
    then have "prefix sub (c # b) \<or> sublist sub b" by (simp add: sublist_Cons_right)
    then show ?thesis
    proof
      assume "prefix sub (c # b)"
      with assms(2) have "sub = []" by (cases sub) auto
      then show ?thesis by simp
    next
      assume "sublist sub b" then show ?thesis by simp
    qed
  next
    case 3
    from 3(1) assms(2) have "c \<notin> set xs2" by simp
    with 3(3) have "xs2 = []" by (cases xs2) auto
    with 3(1,2) show ?thesis by auto
  qed
qed

lemma sublist_join:
  assumes "c \<notin> set sub" and "sub \<noteq> []" and "\<forall>l \<in> set ls. \<not> sublist sub l"
  shows "\<not> sublist sub (py_join [c] ls)"
  using assms(3)
proof (induction ls)
  case Nil
  with assms(2) show ?case by simp
next
  case (Cons l ls)
  show ?case
  proof (cases "ls = []")
    case True
    with Cons.prems show ?thesis by simp
  next
    case False
    then have eq: "py_join [c] (l # ls) = l @ c # py_join [c] ls" by (simp add: py_join_Cons)
    from Cons have "\<not> sublist sub l" "\<not> sublist sub (py_join [c] ls)" by simp_all
    with sublist_across [OF _ assms(1)] show ?thesis unfolding eq by blast
  qed
qed

lemma INFO_facts: "NL \<notin> set (py ''INFO'')" "py ''INFO'' \<noteq> []"
  by (simp_all add: py_def NL_def)

lemma filter_captured_no_INFO: "\<not> sublist (py ''INFO'') (filter_captured x)"
proof (cases "x = []")
  case True
  then show ?thesis by (simp add: filter_captured_def INFO_facts)
next
  case False
  then show ?thesis
    unfolding filter_captured_def filter_lines_def
    by (simp add: sublist_join INFO_facts py_contains_sublist)
qed

lemma filter_lines_clean:
  assumes "\<not> sublist (py ''INFO'') y"
  shows "filter_lines y = py_strip y"
proof -
  have "\<not> py_contains (py ''INFO'') l" if "l \<in> set (py_split NL (py_strip y))" for l
  proof -
    from that have "sublist l (py_strip y)" by (rule split_sublist)
    then have "sublist l y" using strip_sublist by (rule sublist_order.order.trans)
    with assms show ?thesis
      unfolding py_contains_sublist using sublist_order.order.trans by blast
  qed
  then have "filter (\<lambda>line. \<not> py_contains (py ''INFO'') line) (py_split NL (py_strip y)) =
      py_split NL (py_strip y)"
    by (simp add: filter_id_conv)
  then show ?thesis by (simp add: filter_lines_def join_split)
qed

lemma strip_Nil [simp]: "py_strip [] = []"
  by (simp add: py_strip_def)

lemma filter_captured_spec: "filter_captured s = spec_filter (py_strip s)"
proof (cases "s = []")
  case True
  then show ?thesis
    by (simp add: filter_captured_def spec_filter_def py_split_def)
next
  case False
  then show ?thesis
    by (simp add: filter_captured_def filter_lines_def spec_filter_def py_contains_sublist)
qed

section \<open>The line filter\<close>

text \<open>
  C4 (as the specification states it, refuted). The filter does not return the lines of its
  input: it strips the input first. On \<open>"line1\n"\<close> the lines without \<open>INFO\<close> joined by
  newlines are \<open>"line1\n"\<close> again, and the program returns \<open>"line1"\<close>.
\<close>

theorem filter_keeps_no_trailing_newline:
  "filter_captured (py ''line1\<newline>'') \<noteq> spec_filter (py ''line1\<newline>'')"
  by (simp add: filter_captured_def filter_lines_def spec_filter_def py_def py_split_def
      py_strip_def is_space_def NL_def sublist_code)

text \<open>
  C4 (amended). For every input string the filter returns the lines of the input with its
  leading and trailing whitespace stripped that do not contain \<open>INFO\<close>, in order, joined by
  newlines; the empty input gives the empty output, and \<open>"line1\nINFO noisy\nline2"\<close> gives
  \<open>"line1\nline2"\<close>.
\<close>

theorem filter_captured_stripped_lines:
  "filter_captured s = spec_filter (py_strip s)
   \<and> filter_captured [] = []
   \<and> filter_captured (py ''line1\<newline>INFO noisy\<newline>line2'') = py ''line1\<newline>line2''"
proof -
  have "filter_captured (py ''line1\<newline>INFO noisy\<newline>line2'') = py ''line1\<newline>line2''"
    by (simp add: filter_captured_def filter_lines_def py_def py_split_def py_strip_def
        is_space_def NL_def)
  moreover have "filter_captured [] = []"
    by (simp add: filter_captured_def)
  moreover have "filter_captured s = spec_filter (py_strip s)"
    by (rule filter_captured_spec)
  ultimately show ?thesis by blast
qed

text \<open>
  C5 (as the specification states it, refuted). The output for \<open>"INFO\n a"\<close> is \<open>" a"\<close>,
  which contains no \<open>INFO\<close>; filtering it again strips the blank and gives \<open>"a"\<close>.
\<close>

theorem filter_not_idempotent:
  "\<not> sublist (py ''INFO'') (filter_captured (py ''INFO\<newline> a''))
   \<and> filter_captured (filter_captured (py ''INFO\<newline> a'')) \<noteq> filter_captured (py ''INFO\<newline> a'')"
  by (simp add: filter_captured_def filter_lines_def py_def py_split_def py_strip_def
      is_space_def NL_def sublist_code)

text \<open>
  C5 (amended). Filtering the output of the filter again strips its leading and trailing
  whitespace and changes nothing else: \<open>filter(filter(x)) = strip(filter(x))\<close>, so the filter
  is idempotent exactly on the inputs whose filtered output neither starts nor ends with
  whitespace.
\<close>

theorem filter_captured_twice:
  "filter_captured (filter_captured x) = py_strip (filter_captured x)"
proof (cases "filter_captured x = []")
  case True
  then show ?thesis by (simp add: filter_captured_def)
next
  case False
  then show ?thesis
    using filter_lines_clean [OF filter_captured_no_INFO [of x]]
    by (simp add: filter_captured_def [of "filter_captured x"])
qed

section \<open>Properties of the extractor\<close>

lemma normalize_entry_shape:
  assumes "normalize_entry fmt t = Inr r"
  shows "\<exists>a b c d e f rest. r = [(''Test_Id'', a), (''Test_Text'', b), (''State'', c),
           (''Category_Classification'', d), (''Exception_Process'', e), (''Remediation'', f)] @ rest"
  using assms unfolding normalize_entry_def
  by (auto simp: then_do_eq_Inr Let_def split: if_splits)

lemma normalize_entry_keys:
  assumes "normalize_entry fmt t = Inr r"
  shows "map_of r ''State'' \<noteq> None" "map_of r ''Test_Id'' \<noteq> None"
  using normalize_entry_shape [OF assms] by auto

lemma normalized_Nil [simp]: "normalized fmt [] = []"
  by (simp add: normalized_def map_filter_simps)

lemma normalized_Cons [simp]:
  "normalized fmt ((k, t) # items) =
     (case normalize_entry fmt t of
        Inr r \<Rightarrow> r # normalized fmt items | Inl e \<Rightarrow> normalized fmt items)"
  by (simp add: normalized_def map_filter_simps split: sum.splits)

lemma warnings_Nil [simp]: "warnings fmt [] = []"
  by (simp add: warnings_def map_filter_simps)

lemma warnings_Cons [simp]:
  "warnings fmt ((k, t) # items) =
     (case normalize_entry fmt t of
        Inr r \<Rightarrow> warnings fmt items | Inl e \<Rightarrow> Warning k e # warnings fmt items)"
  by (simp add: warnings_def map_filter_simps split: sum.splits)

lemma printable_Nil [simp]: "printable enc fmt []"
  by (simp add: printable_def)

lemma printable_Cons [simp]:
  "printable enc fmt ((k, t) # items) \<longleftrightarrow>
     (case normalize_entry fmt t of Inr r \<Rightarrow> True | Inl e \<Rightarrow> enc k) \<and> printable enc fmt items"
  by (simp add: printable_def)




lemma process_results_printable:
  "printable enc fmt items \<Longrightarrow>
     process_results fmt enc items = (warnings fmt items, Inr (normalized fmt items))"
  by (induction items) (auto split: sum.splits)

lemma process_results_Inr:
  "snd (process_results fmt enc items) = Inr rs \<Longrightarrow> printable enc fmt items"
  by (induction items arbitrary: rs)
    (auto simp: then_do_eq_Inr split: sum.splits prod.splits if_splits)


lemma normalized_set:
  "r \<in> set (normalized fmt items) \<Longrightarrow>
     \<exists>k t. (k, t) \<in> set items \<and> normalize_entry fmt t = Inr r"
proof (induction items)
  case Nil
  then show ?case by simp
next
  case (Cons kv items)
  obtain k t where kv: "kv = (k, t)" by (cases kv)
  have rest: ?case if "r \<in> set (normalized fmt items)"
  proof -
    from Cons.IH [OF that] obtain k' t' where
      "(k', t') \<in> set items" "normalize_entry fmt t' = Inr r" by blast
    then have "(k', t') \<in> set (kv # items) \<and> normalize_entry fmt t' = Inr r" by simp
    then show ?thesis by blast
  qed
  show ?case
  proof (cases "normalize_entry fmt t")
    case (Inl e)
    with Cons.prems kv have "r \<in> set (normalized fmt items)" by simp
    then show ?thesis by (rule rest)
  next
    case (Inr r')
    show ?thesis
    proof (cases "r = r'")
      case True
      with Inr kv have "(k, t) \<in> set (kv # items) \<and> normalize_entry fmt t = Inr r" by simp
      then show ?thesis by blast
    next
      case False
      with Cons.prems kv Inr have "r \<in> set (normalized fmt items)" by simp
      then show ?thesis by (rule rest)
    qed
  qed
qed

lemma normalized_keys:
  assumes "r \<in> set (normalized fmt items)"
  shows "map_of r ''State'' \<noteq> None \<and> map_of r ''Test_Id'' \<noteq> None"
proof -
  from normalized_set [OF assms] obtain t where "normalize_entry fmt t = Inr r" by blast
  then show ?thesis by (simp add: normalize_entry_keys)
qed

lemma row_item_row_get:
  "map_of r k \<noteq> None \<Longrightarrow> row_item r k = Inr (row_get r k)"
  by (auto simp: row_get_def)

lemma with_state_filter:
  "\<forall>r \<in> set rs. map_of r ''State'' \<noteq> None \<Longrightarrow>
     with_state state rs = Inr (filter (has_state state) rs)"
  by (induction rs) (auto simp: has_state_def row_get_def)

lemma with_state_subset:
  "with_state state rs = Inr xs \<Longrightarrow> xs = filter (has_state state) rs"
  by (induction rs arbitrary: xs)
    (auto simp: then_do_eq_Inr has_state_def row_get_def split: option.splits)

lemma keyed_map:
  "\<forall>r \<in> set rs. map_of r k \<noteq> None \<Longrightarrow> keyed k rs = Inr (map (\<lambda>r. (row_get r k, r)) rs)"
  by (induction rs) (auto simp: row_get_def)

lemma keyed_Inr:
  "keyed k rs = Inr krs \<Longrightarrow> map snd krs = rs"
  by (induction rs arbitrary: krs) (auto simp: then_do_eq_Inr split: option.splits)

lemma insort_py_length:
  "insort_py x ys = Inr zs \<Longrightarrow> length zs = Suc (length ys) \<and> set zs = insert x (set ys)"
  by (induction ys arbitrary: zs) (auto simp: then_do_eq_Inr split: if_splits)

lemma sort_py_length:
  "sort_py xs = Inr ys \<Longrightarrow> length ys = length xs \<and> set ys = set xs"
  by (induction xs arbitrary: ys) (auto simp: then_do_eq_Inr dest!: insort_py_length)

lemma py_sorted_length:
  assumes "py_sorted k rs = Inr ys"
  shows "length ys = length rs" and "set ys = set rs"
proof -
  from assms obtain krs s where k: "keyed k rs = Inr krs" and s: "sort_py krs = Inr s"
    and ys: "ys = map snd s"
    by (auto simp: py_sorted_def then_do_eq_Inr)
  from sort_py_length [OF s] keyed_Inr [OF k] ys
  show "length ys = length rs"
    by (metis length_map)
  from sort_py_length [OF s] keyed_Inr [OF k] ys
  show "set ys = set rs"
    by (metis set_map)
qed

lemma insort_py_strings:
  assumes "is_str (h x)" and "\<forall>y \<in> set ys. is_str (h y)"
  shows "insort_py (h x, x) (map (\<lambda>r. (h r, r)) ys) =
         Inr (map (\<lambda>r. (h r, r)) (insort_key (\<lambda>r. str_of (h r)) x ys))"
  using assms(2)
proof (induction ys)
  case Nil
  then show ?case by simp
next
  case (Cons y ys)
  from Cons.prems obtain b where b: "h y = JStr b" by (auto simp: is_str_def split: json.splits)
  from assms(1) obtain a where a: "h x = JStr a" by (auto simp: is_str_def split: json.splits)
  from Cons show ?case
    by (auto simp: a b str_of_def not_less)
qed

lemma sort_py_strings:
  assumes "\<forall>y \<in> set ys. is_str (h y)"
  shows "sort_py (map (\<lambda>r. (h r, r)) ys) =
         Inr (map (\<lambda>r. (h r, r)) (sort_key (\<lambda>r. str_of (h r)) ys))"
  using assms
proof (induction ys)
  case Nil
  then show ?case by simp
next
  case (Cons y ys)
  then have "sort_py (map (\<lambda>r. (h r, r)) ys) =
         Inr (map (\<lambda>r. (h r, r)) (sort_key (\<lambda>r. str_of (h r)) ys))" by simp
  moreover have "insort_py (h y, y) (map (\<lambda>r. (h r, r)) (sort_key (\<lambda>r. str_of (h r)) ys)) =
         Inr (map (\<lambda>r. (h r, r)) (insort_key (\<lambda>r. str_of (h r)) y (sort_key (\<lambda>r. str_of (h r)) ys)))"
    using Cons.prems by (intro insort_py_strings) auto
  ultimately show ?case by simp
qed

lemma py_sorted_strings:
  assumes "\<forall>r \<in> set rs. map_of r ''Test_Id'' \<noteq> None \<and> is_str (row_get r ''Test_Id'')"
  shows "py_sorted ''Test_Id'' rs = Inr (sort_key test_id rs)"
proof -
  have "keyed ''Test_Id'' rs = Inr (map (\<lambda>r. (row_get r ''Test_Id'', r)) rs)"
    using assms by (intro keyed_map) auto
  moreover have "sort_py (map (\<lambda>r. (row_get r ''Test_Id'', r)) rs) =
     Inr (map (\<lambda>r. (row_get r ''Test_Id'', r)) (sort_key (\<lambda>r. str_of (row_get r ''Test_Id'')) rs))"
    using assms by (intro sort_py_strings) auto
  ultimately show ?thesis
    by (simp add: py_sorted_def test_id_def [abs_def] comp_def)
qed

lemma bucket_strings:
  assumes "\<forall>r \<in> set rs. map_of r ''State'' \<noteq> None"
    and "\<forall>r \<in> set rs. map_of r ''Test_Id'' \<noteq> None \<and> is_str (row_get r ''Test_Id'')"
  shows "bucket state rs = Inr (spec_bucket state rs)"
  using assms by (simp add: bucket_def with_state_filter py_sorted_strings spec_bucket_def)

lemma bucket_Inr:
  assumes "bucket state rs = Inr xs"
  shows "length xs = length (filter (has_state state) rs)"
    and "set xs = {r \<in> set rs. has_state state r}"
proof -
  from assms obtain ws where w: "with_state state rs = Inr ws"
    and s: "py_sorted ''Test_Id'' ws = Inr xs"
    by (auto simp: bucket_def then_do_eq_Inr)
  from with_state_subset [OF w] py_sorted_length [OF s]
  show "length xs = length (filter (has_state state) rs)"
    and "set xs = {r \<in> set rs. has_state state r}" by auto
qed

lemma sort_tests_strings:
  assumes "\<forall>r \<in> set rs. map_of r ''State'' \<noteq> None"
    and "\<forall>r \<in> set rs. map_of r ''Test_Id'' \<noteq> None \<and> is_str (row_get r ''Test_Id'')"
  shows "sort_tests rs =
     Inr (spec_bucket (py ''failed'') rs @ spec_bucket (py ''error'') rs
            @ spec_bucket (py ''skipped'') rs @ spec_bucket (py ''passed'') rs,
          length (spec_bucket (py ''failed'') rs), length (spec_bucket (py ''error'') rs),
          length (spec_bucket (py ''skipped'') rs), length (spec_bucket (py ''passed'') rs))"
  by (simp add: sort_tests_def bucket_strings [OF assms])

lemma sort_tests_Inr:
  assumes "sort_tests rs = Inr (rows, nf, ne, ns, np)"
  shows "length rows = nf + ne + ns + np"
    and "set rows = {r \<in> set rs. recognized r}"
    and "nf = length (filter (has_state (py ''failed'')) rs)"
    and "ne = length (filter (has_state (py ''error'')) rs)"
    and "ns = length (filter (has_state (py ''skipped'')) rs)"
    and "np = length (filter (has_state (py ''passed'')) rs)"
proof -
  from assms obtain bf be bs bp where
    b: "bucket (py ''failed'') rs = Inr bf" "bucket (py ''error'') rs = Inr be"
       "bucket (py ''skipped'') rs = Inr bs" "bucket (py ''passed'') rs = Inr bp"
    and r: "rows = bf @ be @ bs @ bp" "nf = length bf" "ne = length be" "ns = length bs"
       "np = length bp"
    by (auto simp: sort_tests_def then_do_eq_Inr)
  show "length rows = nf + ne + ns + np" using r by simp
  show "set rows = {r \<in> set rs. recognized r}"
    using b [THEN bucket_Inr(2)] r(1) by (auto simp: recognized_def)
  show "nf = length (filter (has_state (py ''failed'')) rs)"
    "ne = length (filter (has_state (py ''error'')) rs)"
    "ns = length (filter (has_state (py ''skipped'')) rs)"
    "np = length (filter (has_state (py ''passed'')) rs)"
    using b [THEN bucket_Inr(1)] r by simp_all
qed

lemma extract_on_items:
  assumes "claim_results data = Inr (JObj items)" and "items \<noteq> []"
  shows "extract_body fmt enc data =
     (fst (process_results fmt enc items),
      then_do (snd (process_results fmt enc items)) sort_tests)"
  using assms by (simp add: extract_body_def split: prod.splits)

lemma extract_printable:
  assumes "claim_results data = Inr (JObj items)" and "items \<noteq> []"
    and "printable enc fmt items"
  shows "extract_test_results fmt enc data =
     (warnings fmt items,
      case sort_tests (normalized fmt items) of
        Inl e \<Rightarrow> Inl (ValueError (Error_extracting e)) | Inr ex \<Rightarrow> Inr ex)"
  by (simp add: extract_test_results_def extract_on_items [OF assms(1,2)]
      process_results_printable [OF assms(3)] split: sum.splits)

lemma extract_no_results:
  assumes "claim_results data = Inr cr" and "\<not> truthy cr"
  shows "extract_test_results fmt enc data =
     ([], Inl (ValueError (Error_extracting (ValueError No_test_results))))"
  using assms by (simp add: extract_test_results_def extract_body_def)

section \<open>Properties of the worksheet\<close>

lemma value_at_get_cell: "value_at ws p = c_value (get_cell ws p)"
  by (simp add: value_at_def get_cell_def empty_cell_def split: option.splits)

lemma font_at_get_cell: "font_at ws p = c_font (get_cell ws p)"
  by (simp add: font_at_def get_cell_def empty_cell_def split: option.splits)

lemma get_cell_upd_cell:
  "get_cell (upd_cell f p' ws) p = (if p = p' then f (get_cell ws p') else get_cell ws p)"
  by (simp add: get_cell_def cell_at_def upd_cell_def update_conv')

lemma get_cell_for_each:
  "get_cell (for_each q g xs ws) p = fold (\<lambda>x c. if q x = p then g x c else c) xs (get_cell ws p)"
  unfolding for_each_def
  by (induction xs arbitrary: ws) (auto simp: get_cell_upd_cell)

lemma fold_keeps:
  assumes "\<And>x c. P c \<Longrightarrow> P (g x c)" and "P c0"
  shows "P (fold (\<lambda>x c. if q x = p then g x c else c) xs c0)"
  using assms(2) by (induction xs arbitrary: c0) (auto intro: assms(1))

lemma fold_value:
  assumes "\<And>x c. c_value (g x c) = c_value c"
  shows "c_value (fold (\<lambda>x c. if q x = p then g x c else c) xs c0) = c_value c0"
  by (induction xs arbitrary: c0) (auto simp: assms)

lemma value_at_for_each:
  assumes "\<And>x c. c_value (g x c) = c_value c"
  shows "value_at (for_each q g xs ws) p = value_at ws p"
  by (simp add: value_at_get_cell get_cell_for_each fold_value [of g, OF assms])

lemma fold_idem:
  assumes "\<And>c. k (k c) = k c"
  shows "fold (\<lambda>x c. if x = p then k c else c) ps c0 = (if p \<in> set ps then k c0 else c0)"
  by (induction ps arbitrary: c0) (auto simp: assms)

lemma value_at_set_value:
  "value_at (set_value p' v ws) p = (if p = p' then v else value_at ws p)"
  by (simp add: value_at_get_cell set_value_def get_cell_upd_cell)

lemma value_at_set_values_other:
  "p \<notin> fst ` set pvs \<Longrightarrow> value_at (set_values pvs ws) p = value_at ws p"
  unfolding set_values_def
  by (induction pvs arbitrary: ws) (auto simp: value_at_set_value)

lemma keys_upd_cell:
  "fst ` set (cells (upd_cell f p ws)) = insert p (fst ` set (cells ws))"
  by (simp add: upd_cell_def dom_update)

lemma fold_max_ge: "x \<in> set (a # xs) \<Longrightarrow> x \<le> fold max xs (a::nat)"
  using Max_ge [of "set (a # xs)" x] by (simp only: Max.set_eq_fold [symmetric] List.finite_set)

lemma max_row_ge:
  assumes "p \<in> fst ` set (cells ws)"
  shows "fst p \<le> max_row ws"
  unfolding max_row_def using assms by (intro fold_max_ge) (force simp: case_prod_beta)

lemma value_at_has_cell:
  "value_at ws p \<noteq> JNull \<Longrightarrow> p \<in> fst ` set (cells ws)"
  by (auto simp: value_at_def cell_at_def split: option.splits dest: map_of_SomeD intro: rev_image_eqI)

lemma rows_range_mem:
  "(r, c) \<in> set (rows_range r0 r1 c0 c1) \<longleftrightarrow> r0 \<le> r \<and> r \<le> r1 \<and> c0 \<le> c \<and> c \<le> c1"
  by (auto simp del: upt_Suc simp add: rows_range_def image_iff)

lemma cols_range_mem:
  "(r, c) \<in> set (cols_range r0 r1 c0 c1) \<longleftrightarrow> r0 \<le> r \<and> r \<le> r1 \<and> c0 \<le> c \<and> c \<le> c1"
  by (auto simp del: upt_Suc simp add: cols_range_def image_iff)

text \<open>The last loop of the final formatting, from any sheet.\<close>

lemma keyword_font_idem: "keyword_font p (keyword_font p c) = keyword_font p c"
  by (simp add: keyword_font_def)

lemma keyword_font_value: "c_value (keyword_font p c) = c_value c"
  by (simp add: keyword_font_def)

lemma keyword_loop:
  assumes "has_keyword (value_at (for_each id keyword_font (rows_range 2 (max_row W) 1 6) W) (r, c))"
    and "2 \<le> r" and "1 \<le> c" and "c \<le> 6"
  shows "font_at (for_each id keyword_font (rows_range 2 (max_row W) 1 6) W) (r, c)
         = Some blue_bold_font"
proof -
  let ?ps = "rows_range 2 (max_row W) 1 6"
  have v: "value_at (for_each id keyword_font ?ps W) (r, c) = value_at W (r, c)"
    by (rule value_at_for_each) (rule keyword_font_value)
  with assms(1) have kw: "has_keyword (value_at W (r, c))" by simp
  then have "value_at W (r, c) \<noteq> JNull" by (auto simp: has_keyword_def)
  then have "r \<le> max_row W" using max_row_ge [OF value_at_has_cell, of W "(r, c)"] by simp
  with assms have mem: "(r, c) \<in> set ?ps" by (simp add: rows_range_mem)
  have "get_cell (for_each id keyword_font ?ps W) (r, c) =
        fold (\<lambda>x ce. if x = (r, c) then keyword_font (r, c) ce else ce) ?ps (get_cell W (r, c))"
    unfolding get_cell_for_each by (rule arg_cong [where f = "\<lambda>f. fold f _ _"]) (simp add: fun_eq_iff keyword_font_def)
  also have "\<dots> = keyword_font (r, c) (get_cell W (r, c))"
    using mem by (simp add: fold_idem [of "keyword_font (r, c)", OF keyword_font_idem])
  finally show ?thesis using kw
    by (simp add: font_at_get_cell keyword_font_def value_at_get_cell)
qed

lemma map_of_insert_rows:
  fixes al :: "(pos \<times> cell) list"
  shows "map_of (map (\<lambda>((r, c), x). ((if idx \<le> r then r + n else r, c), x)) al) (r', c') =
     (if r' < idx then map_of al (r', c')
      else if idx + n \<le> r' then map_of al (r' - n, c') else None)"
proof (induction al)
  case Nil
  then show ?case by simp
next
  case (Cons a al)
  obtain r0 c0 x where a: "a = ((r0, c0), x)" by (cases a) auto
  have h: "((if idx \<le> r0 then r0 + n else r0) = r') =
      (if r' < idx then r0 = r' else idx + n \<le> r' \<and> r0 = r' - n)"
    by (cases "idx \<le> r0"; cases "r' < idx"; cases "idx + n \<le> r'"; auto)
  have step: "map_of (map (\<lambda>((r, c), x). ((if idx \<le> r then r + n else r, c), x)) (a # al)) (r', c') =
      (if (if idx \<le> r0 then r0 + n else r0) = r' \<and> c0 = c' then Some x
       else map_of (map (\<lambda>((r, c), x). ((if idx \<le> r then r + n else r, c), x)) al) (r', c'))"
    unfolding a by auto
  show ?case unfolding step Cons.IH h unfolding a by auto
qed

lemma get_cell_insert_rows:
  "get_cell (insert_rows idx n ws) (r, c) =
     (if r < idx then get_cell ws (r, c)
      else if idx + n \<le> r then get_cell ws (r - n, c) else empty_cell)"
  by (simp add: get_cell_def cell_at_def insert_rows_def map_of_insert_rows)

lemma cells_fold_append:
  "cells (fold (\<lambda>(c, v) w. w\<lparr>cells := AList.update (r, c) (g v) (cells w)\<rparr>) cvs ws) =
     fold (\<lambda>(c, v) al. AList.update (r, c) (g v) al) cvs (cells ws)"
  by (induction cvs arbitrary: ws) (auto simp: case_prod_beta)

lemma map_of_fold_append:
  "map_of (fold (\<lambda>(c, v) al. AList.update (r, c) (g v) al) (zip [a..<a + length vs] vs) al) (r', c') =
     (if r' = r \<and> a \<le> c' \<and> c' < a + length vs then Some (g (vs ! (c' - a)))
      else map_of al (r', c'))"
proof (induction vs arbitrary: a al)
  case Nil
  then show ?case by auto
next
  case (Cons v vs)
  have "[a..<a + length (v # vs)] = a # [Suc a..<Suc a + length vs]"
    by (subst upt_rec) simp
  then show ?case
    using Cons [of "Suc a" "AList.update (r, a) (g v) al"]
    by (auto simp: update_conv' nth_Cons' Suc_diff_Suc simp del: upt_Suc)
qed

lemma get_cell_append_row:
  "get_cell (append_row vs ws) (r, c) =
     (if r = Suc (current_row ws) \<and> 1 \<le> c \<and> c \<le> length vs
      then empty_cell\<lparr>c_value := vs ! (c - 1)\<rparr> else get_cell ws (r, c))"
proof -
  have "map_of (fold (\<lambda>(c, v) al. AList.update (r0, c) (g v) al) (zip [1..<Suc (length vs)] vs) al)
          (r, c) =
     (if r = r0 \<and> 1 \<le> c \<and> c \<le> length vs then Some (g (vs ! (c - 1)))
      else map_of al (r, c))" for r0 al and g :: "json \<Rightarrow> cell"
    using map_of_fold_append [of r0 g 1 vs al r c] by (auto simp del: upt_Suc)
  then show ?thesis
    unfolding get_cell_def cell_at_def append_row_def Let_def
    by (simp add: cells_fold_append del: upt_Suc)
qed

lemma current_row_fold_append:
  "current_row (fold (\<lambda>(c, v) w. w\<lparr>cells := AList.update (r, c) (g v) (cells w)\<rparr>) cvs ws) =
     current_row ws"
  by (induction cvs arbitrary: ws) (auto simp: case_prod_beta)

lemma current_row_append_row: "current_row (append_row vs ws) = Suc (current_row ws)"
  by (simp add: append_row_def Let_def)

lemma length_row_data: "length (row_data t) = 8"
  by (simp add: row_data_def headers_def)

lemma current_row_appends:
  "current_row (fold (\<lambda>t. append_row (row_data t)) ts ws) = current_row ws + length ts"
  by (induction ts arbitrary: ws) (simp_all add: current_row_append_row)

lemma get_cell_appends:
  "get_cell (fold (\<lambda>t. append_row (row_data t)) ts ws) (r, c) =
     (if current_row ws < r \<and> r \<le> current_row ws + length ts \<and> 1 \<le> c \<and> c \<le> 8
      then empty_cell\<lparr>c_value := row_data (ts ! (r - current_row ws - 1)) ! (c - 1)\<rparr>
      else get_cell ws (r, c))"
proof (induction ts arbitrary: ws)
  case Nil
  then show ?case by auto
next
  case (Cons t ts)
  show ?case
    using Cons [of "append_row (row_data t) ws"]
    by (auto simp: current_row_append_row get_cell_append_row length_row_data nth_Cons'
        Suc_diff_Suc)
qed

section \<open>Values and fonts of the report\<close>

lemma style_values [simp]:
  "c_value (basic_style p c) = c_value c"
  "c_value (column_alignment p c) = c_value c"
  "c_value (summary_style p c) = c_value c"
  "c_value (center p c) = c_value c"
  "c_value (left_center p c) = c_value c"
  "c_value (version_style ip c) = c_value c"
  "c_value (summary_border ip c) = c_value c"
  "c_value (state_border p c) = c_value c"
  "c_value (light_green p c) = c_value c"
  "c_value (keyword_font p c) = c_value c"
  by (simp_all add: basic_style_def column_alignment_def summary_style_def center_def
      left_center_def version_style_def summary_border_def state_border_def light_green_def
      keyword_font_def Let_def split: json.splits option.splits)

lemma value_at_apply_basic_styling [simp]:
  "value_at (apply_basic_styling ws) p = value_at ws p"
  by (simp add: apply_basic_styling_def value_at_for_each)

lemma value_at_set_column_formatting [simp]:
  "value_at (set_column_formatting ws) p = value_at ws p"
  by (simp add: set_column_formatting_def value_at_for_each)

lemma value_at_align_slice [simp]:
  "value_at (align_slice col lo hi ws) p = value_at ws p"
  by (simp add: align_slice_def Let_def value_at_for_each)

lemma value_at_apply_final_formatting [simp]:
  "value_at (apply_final_formatting ws) p = value_at ws p"
  by (simp add: apply_final_formatting_def keyword_fonts_def header_fills_def state_borders_def
      summary_borders_def version_styles_def center_rows_def value_at_for_each)

lemma gets_length: "gets d ks dflt = Inr vs \<Longrightarrow> length vs = length ks"
  by (induction ks arbitrary: vs) (auto simp: then_do_eq_Inr)

lemma value_at_add_version_information:
  assumes "c \<noteq> 3" and "c \<noteq> 4"
  shows "value_at (add_version_information data ws) (r, c) = value_at ws (r, c)"
proof (cases "version_values data")
  case (Inl e)
  then show ?thesis by (simp add: add_version_information_def)
next
  case (Inr vs)
  have "(r, c) \<notin> fst ` set (version_labels @ zip (map (\<lambda>r. (r, 4)) [2..<8]) vs)"
    using assms by (auto simp: version_labels_def dest!: set_zip_leftD)
  then show ?thesis
    by (simp add: add_version_information_def Inr value_at_set_values_other)
qed

lemma value_at_add_version_information_low:
  assumes "8 \<le> r"
  shows "value_at (add_version_information data ws) (r, c) = value_at ws (r, c)"
proof (cases "version_values data")
  case (Inl e)
  then show ?thesis by (simp add: add_version_information_def)
next
  case (Inr vs)
  have "(r, c) \<notin> fst ` set (version_labels @ zip (map (\<lambda>r. (r, 4)) [2..<8]) vs)"
    using assms by (auto simp: version_labels_def dest!: set_zip_leftD)
  then show ?thesis
    by (simp add: add_version_information_def Inr value_at_set_values_other)
qed

lemma value_at_insert_rows:
  "value_at (insert_rows idx n ws) (r, c) =
     (if r < idx then value_at ws (r, c)
      else if idx + n \<le> r then value_at ws (r - n, c) else JNull)"
  by (simp add: value_at_get_cell get_cell_insert_rows empty_cell_def)

lemma value_at_add_summary_section_table:
  assumes "10 \<le> r"
  shows "value_at (add_summary_section sorted_tests nf ne ns np dci_jobid ws) (r, c) =
         value_at ws (r - 9, c)"
proof -
  have "(r, c) \<notin> fst ` set (summary_values sorted_tests nf ne ns np dci_jobid)"
    using assms by (auto simp: summary_values_def)
  then show ?thesis using assms
    by (simp add: add_summary_section_def summary_styles_def value_at_for_each
        value_at_set_values_other value_at_insert_rows)
qed

lemma value_at_add_summary_section_total:
  "value_at (add_summary_section sorted_tests nf ne ns np dci_jobid ws) (2, 2) =
     JInt (int (length sorted_tests))"
  by (simp add: add_summary_section_def summary_styles_def value_at_for_each set_values_def
      summary_values_def value_at_set_value)

lemma value_at_add_summary_section_job:
  "value_at (add_summary_section sorted_tests nf ne ns np dci_jobid ws) (7, 2) =
     JStr (job_url dci_jobid)"
  by (simp add: add_summary_section_def summary_styles_def value_at_for_each set_values_def
      summary_values_def value_at_set_value)

lemma value_at_add_test_results:
  assumes "i < length sorted_tests" and "1 \<le> c" and "c \<le> 8"
  shows "value_at (add_test_results_to_worksheet sorted_tests new_worksheet) (2 + i, c) =
         row_data (sorted_tests ! i) ! (c - 1)"
  using assms
  by (simp add: value_at_get_cell add_test_results_to_worksheet_def get_cell_appends
      current_row_append_row new_worksheet_def)

lemma report_value_row:
  assumes "i < length sorted_tests" and "1 \<le> c" and "c \<le> 8"
  shows "value_at (build_report data (sorted_tests, nf, ne, ns, np) dci_jobid) (11 + i, c) =
         row_data (sorted_tests ! i) ! (c - 1)"
  using value_at_add_test_results [OF assms]
  by (simp add: build_report_def value_at_add_version_information_low
      value_at_add_summary_section_table)

lemma report_value_total:
  "value_at (build_report data (sorted_tests, nf, ne, ns, np) dci_jobid) (2, 2) =
     JInt (int (length sorted_tests))"
  by (simp add: build_report_def value_at_add_version_information
      value_at_add_summary_section_total)

lemma report_value_job:
  "value_at (build_report data (sorted_tests, nf, ne, ns, np) dci_jobid) (7, 2) =
     JStr (job_url dci_jobid)"
  by (simp add: build_report_def value_at_add_version_information
      value_at_add_summary_section_job)

lemma fold_skip:
  "p \<notin> q ` set xs \<Longrightarrow> fold (\<lambda>x c. if q x = p then g x c else c) xs c0 = c0"
  by (induction xs arbitrary: c0) auto

lemma plain_for_each:
  assumes "\<And>x c. c_font c \<noteq> Some blue_bold_font \<Longrightarrow> c_font (g x c) \<noteq> Some blue_bold_font"
    and "\<forall>p. c_font (get_cell ws p) \<noteq> Some blue_bold_font"
  shows "\<forall>p. c_font (get_cell (for_each q g xs ws) p) \<noteq> Some blue_bold_font"
proof
  fix p
  show "c_font (get_cell (for_each q g xs ws) p) \<noteq> Some blue_bold_font"
    unfolding get_cell_for_each
  proof (rule fold_keeps [where P = "\<lambda>c. c_font c \<noteq> Some blue_bold_font"])
    show "c_font (get_cell ws p) \<noteq> Some blue_bold_font" using assms(2) by blast
  qed (rule assms(1))
qed

lemma plain_styles:
  "c_font c \<noteq> Some blue_bold_font \<Longrightarrow> c_font (basic_style p c) \<noteq> Some blue_bold_font"
  "c_font c \<noteq> Some blue_bold_font \<Longrightarrow> c_font (column_alignment p c) \<noteq> Some blue_bold_font"
  "c_font c \<noteq> Some blue_bold_font \<Longrightarrow> c_font (summary_style p c) \<noteq> Some blue_bold_font"
  "c_font c \<noteq> Some blue_bold_font \<Longrightarrow> c_font (center p c) \<noteq> Some blue_bold_font"
  "c_font c \<noteq> Some blue_bold_font \<Longrightarrow> c_font (left_center p c) \<noteq> Some blue_bold_font"
  "c_font c \<noteq> Some blue_bold_font \<Longrightarrow> c_font (version_style ip c) \<noteq> Some blue_bold_font"
  "c_font c \<noteq> Some blue_bold_font \<Longrightarrow> c_font (summary_border ip c) \<noteq> Some blue_bold_font"
  "c_font c \<noteq> Some blue_bold_font \<Longrightarrow> c_font (state_border p c) \<noteq> Some blue_bold_font"
  "c_font c \<noteq> Some blue_bold_font \<Longrightarrow> c_font (light_green p c) \<noteq> Some blue_bold_font"
  by (simp_all add: basic_style_def column_alignment_def summary_style_def center_def
      left_center_def version_style_def summary_border_def state_border_def light_green_def
      Let_def blue_bold_font_def arial_font_def header_font_def bold_font_def
      split: json.splits option.splits)

lemma plain_set_values:
  assumes "\<forall>p. c_font (get_cell ws p) \<noteq> Some blue_bold_font"
  shows "\<forall>p. c_font (get_cell (set_values pvs ws) p) \<noteq> Some blue_bold_font"
  using assms unfolding set_values_def
  by (induction pvs arbitrary: ws) (auto simp: set_value_def get_cell_upd_cell)

lemma plain_insert_rows:
  assumes "\<forall>p. c_font (get_cell ws p) \<noteq> Some blue_bold_font"
  shows "\<forall>p. c_font (get_cell (insert_rows idx n ws) p) \<noteq> Some blue_bold_font"
  using assms by (auto simp: get_cell_insert_rows empty_cell_def)

lemma get_cell_new_worksheet: "get_cell new_worksheet p = empty_cell"
  by (simp add: get_cell_def cell_at_def new_worksheet_def)

lemma plain_add_test_results:
  "\<forall>p. c_font (get_cell (add_test_results_to_worksheet sorted_tests new_worksheet) p)
     \<noteq> Some blue_bold_font"
  by (auto simp: add_test_results_to_worksheet_def get_cell_appends get_cell_append_row
      get_cell_new_worksheet empty_cell_def)

lemma plain_before_keywords:
  "\<forall>p. c_font (get_cell
      (add_version_information data
        (add_summary_section sorted_tests nf ne ns np dci_jobid
          (set_column_formatting
            (apply_basic_styling
              (add_test_results_to_worksheet sorted_tests new_worksheet))))) p)
     \<noteq> Some blue_bold_font"
proof -
  have 3: "\<forall>p. c_font (get_cell (add_summary_section sorted_tests nf ne ns np dci_jobid
        (set_column_formatting (apply_basic_styling
              (add_test_results_to_worksheet sorted_tests new_worksheet)))) p)
     \<noteq> Some blue_bold_font"
    unfolding add_summary_section_def summary_styles_def set_column_formatting_def
      apply_basic_styling_def
    by (intro plain_for_each plain_styles plain_set_values plain_insert_rows
        plain_add_test_results)
  show ?thesis
    unfolding add_version_information_def
    by (cases "version_values data") (simp_all add: 3 plain_set_values)
qed

lemma plain_align_slice:
  assumes "\<forall>p. c_font (get_cell ws p) \<noteq> Some blue_bold_font"
  shows "\<forall>p. c_font (get_cell (align_slice col lo hi ws) p) \<noteq> Some blue_bold_font"
  unfolding align_slice_def Let_def
  by (intro plain_for_each plain_styles assms) assumption

lemma plain_center_rows:
  assumes "\<forall>p. c_font (get_cell ws p) \<noteq> Some blue_bold_font"
  shows "\<forall>p. c_font (get_cell (center_rows ws) p) \<noteq> Some blue_bold_font"
  unfolding center_rows_def fold_simps id_apply o_apply
  by (intro plain_for_each plain_styles assms)

lemma plain_outside_keyword_columns:
  assumes "\<forall>p. c_font (get_cell ws p) \<noteq> Some blue_bold_font" and "7 \<le> c"
  shows "font_at (apply_final_formatting ws) (r, c) \<noteq> Some blue_bold_font"
proof -
  have skip: "get_cell (keyword_fonts W) (r, c) = get_cell W (r, c)" for W
    using assms(2) unfolding keyword_fonts_def get_cell_for_each
    by (intro fold_skip) (auto simp: rows_range_mem)
  have "\<forall>p. c_font (get_cell
         (align_slice 4 (\<lambda>w. int (min_row w) - 2) (\<lambda>w. int (max_row w) - 5)
           (align_slice 2 (\<lambda>w. int (min_row w) - 1) (\<lambda>w. int (max_row w) - 6)
             (header_fills (state_borders (summary_borders (version_styles (center_rows ws))))))) p)
        \<noteq> Some blue_bold_font"
    unfolding header_fills_def state_borders_def summary_borders_def version_styles_def
    by (intro plain_align_slice plain_for_each plain_styles plain_center_rows assms(1))
  then show ?thesis
    unfolding apply_final_formatting_def font_at_get_cell skip by blast
qed

lemma report_font_outside:
  assumes "7 \<le> c"
  shows "font_at (build_report data (sorted_tests, nf, ne, ns, np) dci_jobid) (r, c)
         \<noteq> Some blue_bold_font"
  unfolding build_report_def prod.case
  by (rule plain_outside_keyword_columns [OF plain_before_keywords assms])

lemma report_font_keyword:
  assumes "has_keyword (value_at (build_report data ex dci_jobid) (r, c))"
    and "2 \<le> r" and "1 \<le> c" and "c \<le> 6"
  shows "font_at (build_report data ex dci_jobid) (r, c) = Some blue_bold_font"
proof -
  obtain W where W: "build_report data ex dci_jobid = keyword_fonts W"
    by (cases ex) (auto simp: build_report_def apply_final_formatting_def)
  show ?thesis
    using assms unfolding W keyword_fonts_def by (rule keyword_loop)
qed

section \<open>The example claim\<close>

lemma py_eq_iff [simp]: "py a = py b \<longleftrightarrow> a = b"
proof -
  have "inj py" unfolding py_def by (simp add: inj_on_def)
  then show ?thesis by (simp add: inj_eq)
qed

lemma example_filtered:
  "filter_captured (py ''line1\<newline>INFO noisy\<newline>line2'') = py ''line1\<newline>line2''"
  by (simp add: filter_captured_def filter_lines_def py_def py_split_def py_strip_def
      is_space_def NL_def)

lemma example_normalize:
  "normalize_entry fmt (example_test i state) = Inr (example_row i state)"
proof -
  have keys: "py ''testID'' \<noteq> py ''state''" "py ''catalogInfo'' \<noteq> py ''testID''"
    "py ''catalogInfo'' \<noteq> py ''state''" "py ''categoryClassification'' \<noteq> py ''testID''"
    "py ''categoryClassification'' \<noteq> py ''state''"
    "py ''categoryClassification'' \<noteq> py ''catalogInfo''"
    "py ''capturedTestOutput'' \<noteq> py ''testID''" "py ''capturedTestOutput'' \<noteq> py ''state''"
    "py ''capturedTestOutput'' \<noteq> py ''catalogInfo''"
    "py ''capturedTestOutput'' \<noteq> py ''categoryClassification''"
    "py ''description'' \<noteq> py ''remediation''" "py ''exceptionProcess'' \<noteq> py ''remediation''"
    "py ''bestPracticeReference'' \<noteq> py ''remediation''"
    by simp_all
  have cc: "py ''Telco'' @ py '': '' @ py ''Mandatory'' = py ''Telco: Mandatory''"
    by (simp add: py_def)
  show ?thesis
    by (simp add: normalize_entry_def example_test_def example_row_def get2_def
        category_classification_def fstr_def example_filtered keys keys [symmetric] cc)
qed

lemma example_printable: "printable enc fmt example_items"
  by (simp add: example_items_def example_normalize)

lemma example_normalized:
  "normalized fmt example_items =
     [example_row ''B'' ''failed'', example_row ''A'' ''passed'', example_row ''A'' ''skipped'']"
  by (simp add: example_items_def example_normalize)

lemma example_claim_results: "claim_results example_claim = Inr (JObj example_items)"
  by (simp add: claim_results_def example_claim_def claim_of_def)

lemma example_extract:
  "extract_test_results fmt enc example_claim = ([], Inr example_extracted)"
proof -
  have "sort_tests [example_row ''B'' ''failed'', example_row ''A'' ''passed'',
        example_row ''A'' ''skipped''] = Inr example_extracted"
    by (simp add: sort_tests_def bucket_def py_sorted_def example_row_def
        example_extracted_def)
  moreover have "example_items \<noteq> []" by (simp add: example_items_def)
  moreover have "warnings fmt example_items = []"
    by (simp add: example_items_def example_normalize)
  ultimately show ?thesis
    using extract_printable [OF example_claim_results _ example_printable, of fmt enc]
    by (simp add: example_normalized)
qed

section \<open>The extractor\<close>

lemma extract_Inr:
  assumes "snd (extract_test_results fmt enc data) = Inr ex"
  shows "\<exists>items. claim_results data = Inr (JObj items) \<and> items \<noteq> []
           \<and> printable enc fmt items \<and> sort_tests (normalized fmt items) = Inr ex"
proof -
  from assms obtain cr where cr: "claim_results data = Inr cr"
    by (cases "claim_results data")
      (auto simp: extract_test_results_def extract_body_def)
  with assms have t: "truthy cr"
    by (auto simp: extract_test_results_def extract_body_def split: if_splits)
  from assms cr t obtain items where items: "cr = JObj items"
    by (cases cr) (auto simp: extract_test_results_def extract_body_def)
  with t have ne: "items \<noteq> []" by simp
  from cr items have c: "claim_results data = Inr (JObj items)" by simp
  from assms obtain rs where rs: "snd (process_results fmt enc items) = Inr rs"
    by (cases "snd (process_results fmt enc items)")
      (auto simp: extract_test_results_def extract_on_items [OF c ne] split: sum.splits)
  from process_results_Inr [OF rs] have p: "printable enc fmt items" .
  from assms have "sort_tests (normalized fmt items) = Inr ex"
    by (simp add: extract_printable [OF c ne p] split: sum.splits)
  with c ne p show ?thesis by blast
qed

lemma length_filter_recognized:
  "length (filter recognized rs) =
     length (filter (has_state (py ''failed'')) rs) + length (filter (has_state (py ''error'')) rs)
     + length (filter (has_state (py ''skipped'')) rs)
     + length (filter (has_state (py ''passed'')) rs)"
  by (induction rs) (auto simp: recognized_def has_state_def)


lemma generate_body_Inl:
  assumes "snd (extract_test_results fmt enc data) = Inl e"
  shows "\<exists>e'. generate_body fmt enc (Parsed data) can_save dci_jobid = Inl e'"
  using assms
  by (auto simp: generate_body_def then_do_def split: sum.splits)

text \<open>
  C1. For a claim with a non-empty results mapping whose rows have strings as identifiers, and
  when the warnings for the entries that do not normalize can be written to standard output,
  the extractor returns the failed, the error, the skipped and the passed bucket of the
  normalized rows, in this order, and their sizes. Each bucket holds the rows with exactly
  that state string, sorted ascending by identifier in the lexicographic order of strings, in
  which the empty string is the least. The three entries failed \<open>B\<close>, passed \<open>A\<close>, skipped
  \<open>A\<close> give the rows \<open>B\<close> (failed), \<open>A\<close> (skipped), \<open>A\<close> (passed) and the counts 1, 0, 1, 1.
\<close>

theorem extract_buckets_in_order:
  assumes "claim_results data = Inr (JObj items)" and "items \<noteq> []"
    and "printable enc fmt items"
    and "\<forall>r \<in> set (normalized fmt items). is_str (row_get r ''Test_Id'')"
  shows "snd (extract_test_results fmt enc data) =
       Inr (spec_bucket (py ''failed'') (normalized fmt items)
              @ spec_bucket (py ''error'') (normalized fmt items)
              @ spec_bucket (py ''skipped'') (normalized fmt items)
              @ spec_bucket (py ''passed'') (normalized fmt items),
            length (spec_bucket (py ''failed'') (normalized fmt items)),
            length (spec_bucket (py ''error'') (normalized fmt items)),
            length (spec_bucket (py ''skipped'') (normalized fmt items)),
            length (spec_bucket (py ''passed'') (normalized fmt items)))
     \<and> (\<forall>state. sorted (map test_id (spec_bucket state (normalized fmt items)))
           \<and> set (spec_bucket state (normalized fmt items)) =
               {r \<in> set (normalized fmt items). has_state state r})
     \<and> (\<forall>s :: pystr. [] \<le> s)
     \<and> snd (extract_test_results fmt enc example_claim) = Inr example_extracted"
proof -
  let ?rs = "normalized fmt items"
  have keys: "\<forall>r \<in> set ?rs. map_of r ''State'' \<noteq> None"
    "\<forall>r \<in> set ?rs. map_of r ''Test_Id'' \<noteq> None \<and> is_str (row_get r ''Test_Id'')"
    using normalized_keys [of _ fmt items] assms(4) by auto
  have "sorted (map test_id (spec_bucket state ?rs))" for state
    unfolding spec_bucket_def by (rule sorted_sort_key)
  moreover have "set (spec_bucket state ?rs) = {r \<in> set ?rs. has_state state r}" for state
    by (auto simp: spec_bucket_def)
  moreover have "\<forall>s :: pystr. [] \<le> s" by simp
  ultimately show ?thesis
    by (simp add: extract_printable [OF assms(1,2,3)] sort_tests_strings [OF keys]
        example_extract)
qed

theorem extract_buckets_in_order_witness:
  "claim_results example_claim = Inr (JObj example_items) \<and> example_items \<noteq> []
   \<and> printable utf8_encodes no_fmt example_items
   \<and> list_all (\<lambda>r. is_str (row_get r ''Test_Id'')) (normalized no_fmt example_items)
   \<and> snd (extract_test_results no_fmt utf8_encodes example_claim) =
       Inr (spec_bucket (py ''failed'') (normalized no_fmt example_items)
              @ spec_bucket (py ''error'') (normalized no_fmt example_items)
              @ spec_bucket (py ''skipped'') (normalized no_fmt example_items)
              @ spec_bucket (py ''passed'') (normalized no_fmt example_items),
            length (spec_bucket (py ''failed'') (normalized no_fmt example_items)),
            length (spec_bucket (py ''error'') (normalized no_fmt example_items)),
            length (spec_bucket (py ''skipped'') (normalized no_fmt example_items)),
            length (spec_bucket (py ''passed'') (normalized no_fmt example_items)))
   \<and> snd (extract_test_results no_fmt utf8_encodes example_claim) =
       Inr ([example_row ''B'' ''failed'', example_row ''A'' ''skipped'',
             example_row ''A'' ''passed''], 1, 0, 1, 1)"
proof -
  have 1: "claim_results example_claim = Inr (JObj example_items)"
    by (rule example_claim_results)
  have 2: "example_items \<noteq> []" by (simp add: example_items_def)
  have 3: "printable utf8_encodes no_fmt example_items" by (rule example_printable)
  have 4: "\<forall>r \<in> set (normalized no_fmt example_items). is_str (row_get r ''Test_Id'')"
    by (simp add: example_normalized example_row_def row_get_def is_str_def)
  from 4 have 5: "list_all (\<lambda>r. is_str (row_get r ''Test_Id''))
      (normalized no_fmt example_items)"
    by (simp only: list_all_iff)
  note t = extract_buckets_in_order [OF 1 2 3 4]
  have "snd (extract_test_results no_fmt utf8_encodes example_claim) = Inr example_extracted"
    by (rule t [THEN conjunct2, THEN conjunct2, THEN conjunct2])
  then have 6: "snd (extract_test_results no_fmt utf8_encodes example_claim) =
       Inr ([example_row ''B'' ''failed'', example_row ''A'' ''skipped'',
             example_row ''A'' ''passed''], 1, 0, 1, 1)"
    by (simp add: example_extracted_def)
  from t 1 2 3 5 6 show ?thesis by blast
qed

text \<open>
  C3. Whenever the extractor returns, the number of rows is the sum of the four counts; every
  row has one of the four recognized states, the rows are exactly the normalized entries with
  such a state, so entries with another state are in no bucket, not among the rows and not
  counted; and the cell B2 of the report, next to the label \<open>Total\<close>, holds the number of rows.
\<close>

theorem rows_are_counted:
  assumes "snd (extract_test_results fmt enc data) = Inr (rows, nf, ne, ns, np)"
  shows "length rows = nf + ne + ns + np
     \<and> (\<forall>r \<in> set rows. recognized r)
     \<and> (\<exists>items. claim_results data = Inr (JObj items)
          \<and> set rows = {r \<in> set (normalized fmt items). recognized r}
          \<and> length rows = length (filter recognized (normalized fmt items)))
     \<and> value_at (build_report data (rows, nf, ne, ns, np) dci_jobid) (2, 2)
         = JInt (int (length rows))"
proof -
  from extract_Inr [OF assms] obtain items where
    items: "claim_results data = Inr (JObj items)"
    and s: "sort_tests (normalized fmt items) = Inr (rows, nf, ne, ns, np)"
    by blast
  note f = sort_tests_Inr [OF s]
  have "length rows = length (filter recognized (normalized fmt items))"
    using f(1,3,4,5,6) by (simp add: length_filter_recognized)
  with f(1,2) items show ?thesis
    by (auto simp: report_value_total)
qed

theorem rows_are_counted_witness:
  "snd (extract_test_results no_fmt utf8_encodes example_claim) =
     Inr ([example_row ''B'' ''failed'', example_row ''A'' ''skipped'',
           example_row ''A'' ''passed''], 1, 0, 1, 1)
   \<and> length [example_row ''B'' ''failed'', example_row ''A'' ''skipped'',
           example_row ''A'' ''passed''] = 1 + 0 + 1 + 1
   \<and> value_at (build_report example_claim
         ([example_row ''B'' ''failed'', example_row ''A'' ''skipped'',
           example_row ''A'' ''passed''], 1, 0, 1, 1) (py ''12345'')) (2, 2) = JInt 3"
proof -
  have 1: "snd (extract_test_results no_fmt utf8_encodes example_claim) =
     Inr ([example_row ''B'' ''failed'', example_row ''A'' ''skipped'',
           example_row ''A'' ''passed''], 1, 0, 1, 1)"
    by (simp add: example_extract example_extracted_def)
  from rows_are_counted [OF 1, of "py ''12345''"] 1 show ?thesis by simp
qed

text \<open>
  C6. When the results of a claim are empty or absent (any false value), the extractor raises
  the error for missing results instead of returning no rows, the generation of the report
  ends in \<open>sys.exit(1)\<close>, and so does the run, which leaves no report.
\<close>

theorem no_results_is_fatal:
  assumes "claim_results data = Inr cr" and "\<not> truthy cr"
  shows "extract_test_results fmt enc data =
       ([], Inl (ValueError (Error_extracting (ValueError No_test_results))))
     \<and> generate_cert_test_excel_report fmt enc (Parsed data) can_save dci_jobid = Exit 1
     \<and> (dcirc_is_file env \<longrightarrow> job_id args = None
          \<longrightarrow> file_at env (input_file args) = Parsed data
          \<longrightarrow> main fmt env args = Exit 1 \<and> report (main fmt env args) = None)"
proof -
  have e: "extract_test_results fmt enc' data =
       ([], Inl (ValueError (Error_extracting (ValueError No_test_results))))" for enc'
    using assms by (rule extract_no_results)
  have g: "generate_cert_test_excel_report fmt enc' (Parsed data) cs j = Exit 1" for enc' cs j
  proof -
    from e [of enc'] have "snd (extract_test_results fmt enc' data) =
       Inl (ValueError (Error_extracting (ValueError No_test_results)))" by simp
    from generate_body_Inl [OF this, of cs j]
    obtain e' where "generate_body fmt enc' (Parsed data) cs j = Inl e'" by blast
    then show ?thesis by (simp add: generate_cert_test_excel_report_def)
  qed
  show ?thesis
    using e g by (auto simp: main_def check_file_exists_def)
qed


theorem no_results_is_fatal_witness:
  "claim_results empty_claim = Inr (JObj []) \<and> \<not> truthy (JObj [])
   \<and> extract_test_results no_fmt utf8_encodes empty_claim =
       ([], Inl (ValueError (Error_extracting (ValueError No_test_results))))
   \<and> generate_cert_test_excel_report no_fmt utf8_encodes (Parsed empty_claim) True
         (py ''12345'') = Exit 1
   \<and> dcirc_is_file (example_env\<lparr>file_at := (\<lambda>path. Parsed empty_claim)\<rparr>)
   \<and> job_id example_args = None
   \<and> file_at (example_env\<lparr>file_at := (\<lambda>path. Parsed empty_claim)\<rparr>) (input_file example_args)
       = Parsed empty_claim
   \<and> main no_fmt (example_env\<lparr>file_at := (\<lambda>path. Parsed empty_claim)\<rparr>) example_args = Exit 1"
proof -
  have 1: "claim_results empty_claim = Inr (JObj [])"
    by (simp add: claim_results_def empty_claim_def claim_of_def)
  have 2: "\<not> truthy (JObj [])" by simp
  have 3: "dcirc_is_file (example_env\<lparr>file_at := (\<lambda>path. Parsed empty_claim)\<rparr>)"
    "job_id example_args = None"
    "file_at (example_env\<lparr>file_at := (\<lambda>path. Parsed empty_claim)\<rparr>) (input_file example_args)
       = Parsed empty_claim"
    by (simp_all add: example_env_def example_args_def)
  from no_results_is_fatal [OF 1 2, of no_fmt utf8_encodes True "py ''12345''"
      "example_env\<lparr>file_at := (\<lambda>path. Parsed empty_claim)\<rparr>" example_args] 1 2 3
  show ?thesis by blast
qed








section \<open>The passed rows\<close>

lemma normalize_entry_output:
  assumes "normalize_entry fmt t = Inr r"
  shows "map_of r ''Capture_Output'' = None \<longleftrightarrow> has_state (py ''passed'') r"
    and "map_of r ''Best_Practice_Link'' = None \<longleftrightarrow> has_state (py ''passed'') r"
    and "\<not> has_state (py ''passed'') r \<Longrightarrow>
         \<exists>s. then_do (py_get t (py ''capturedTestOutput'') (JStr [])) filtered_output_str = Inr s
              \<and> map_of r ''Capture_Output'' = Some (JStr s)"
proof -
  from assms obtain kvs where t: "t = JObj kvs"
    by (cases t) (auto simp: normalize_entry_def get2_def)
  have p: "py ''passed'' \<noteq> []" by (simp add: py_def)
  from assms p show "map_of r ''Capture_Output'' = None \<longleftrightarrow> has_state (py ''passed'') r"
    unfolding normalize_entry_def t has_state_def row_get_def
    by (auto simp: then_do_eq_Inr Let_def split: if_splits option.splits)
  from assms p show "map_of r ''Best_Practice_Link'' = None \<longleftrightarrow> has_state (py ''passed'') r"
    unfolding normalize_entry_def t has_state_def row_get_def
    by (auto simp: then_do_eq_Inr Let_def split: if_splits option.splits)
  assume "\<not> has_state (py ''passed'') r"
  with assms p show "\<exists>s. then_do (py_get t (py ''capturedTestOutput'') (JStr [])) filtered_output_str = Inr s
              \<and> map_of r ''Capture_Output'' = Some (JStr s)"
    unfolding normalize_entry_def t has_state_def row_get_def
    by (auto simp: then_do_eq_Inr Let_def split: if_splits option.splits)
qed

lemma extracted_row_normalized:
  assumes "snd (extract_test_results fmt enc data) = Inr (rows, nf, ne, ns, np)"
    and "r \<in> set rows"
  shows "\<exists>t. normalize_entry fmt t = Inr r"
proof -
  from extract_Inr [OF assms(1)] obtain items where
    s: "sort_tests (normalized fmt items) = Inr (rows, nf, ne, ns, np)"
    by blast
  from sort_tests_Inr(2) [OF s] assms(2) have "r \<in> set (normalized fmt items)"
    by simp
  from normalized_set [OF this] show ?thesis by blast
qed

lemma row_data_columns:
  "row_data r ! 3 = row_get r ''Capture_Output''"
  "row_data r ! 4 = row_get r ''Category_Classification''"
  "row_data r ! 6 = row_get r ''Remediation''"
  "row_data r ! 7 = row_get r ''Best_Practice_Link''"
  by (simp_all add: row_data_def headers_def)

text \<open>
  C2. A normalized row has the keys \<open>Capture_Output\<close> and \<open>Best_Practice_Link\<close> if and only if
  its state is not the string \<open>passed\<close>; when it has them, \<open>Capture_Output\<close> is the filtered
  captured output. A passed row among the extracted rows lacks both keys, and the report has
  the empty string in the columns 4 (\<open>Capture_Output\<close>) and 8 (\<open>Best_Practice_Link\<close>) of its
  line.
\<close>

theorem passed_rows_have_no_output:
  "(normalize_entry fmt test = Inr r \<longrightarrow>
      (map_of r ''Capture_Output'' = None \<longleftrightarrow> has_state (py ''passed'') r)
      \<and> (map_of r ''Best_Practice_Link'' = None \<longleftrightarrow> has_state (py ''passed'') r)
      \<and> (\<not> has_state (py ''passed'') r \<longrightarrow>
           (\<exists>s. then_do (py_get test (py ''capturedTestOutput'') (JStr [])) filtered_output_str
                   = Inr s
                 \<and> map_of r ''Capture_Output'' = Some (JStr s))))
   \<and> (snd (extract_test_results fmt enc data) = Inr (rows, nf, ne, ns, np) \<longrightarrow> i < length rows
        \<longrightarrow> has_state (py ''passed'') (rows ! i)
        \<longrightarrow> map_of (rows ! i) ''Capture_Output'' = None
            \<and> map_of (rows ! i) ''Best_Practice_Link'' = None
            \<and> value_at (build_report data (rows, nf, ne, ns, np) dci_jobid) (11 + i, 4) = JStr []
            \<and> value_at (build_report data (rows, nf, ne, ns, np) dci_jobid) (11 + i, 8) = JStr [])"
proof (intro conjI impI)
  assume n: "normalize_entry fmt test = Inr r"
  from normalize_entry_output(1) [OF n]
  show "map_of r ''Capture_Output'' = None \<longleftrightarrow> has_state (py ''passed'') r" .
  from normalize_entry_output(2) [OF n]
  show "map_of r ''Best_Practice_Link'' = None \<longleftrightarrow> has_state (py ''passed'') r" .
  assume "\<not> has_state (py ''passed'') r"
  from normalize_entry_output(3) [OF n this]
  show "\<exists>s. then_do (py_get test (py ''capturedTestOutput'') (JStr [])) filtered_output_str = Inr s
            \<and> map_of r ''Capture_Output'' = Some (JStr s)" .
next
  assume e: "snd (extract_test_results fmt enc data) = Inr (rows, nf, ne, ns, np)"
    and i: "i < length rows" and p: "has_state (py ''passed'') (rows ! i)"
  from i have "rows ! i \<in> set rows" by simp
  from extracted_row_normalized [OF e this] obtain t where
    n: "normalize_entry fmt t = Inr (rows ! i)" by blast
  from normalize_entry_output(1) [OF n] p
  show co: "map_of (rows ! i) ''Capture_Output'' = None" by simp
  from normalize_entry_output(2) [OF n] p
  show bp: "map_of (rows ! i) ''Best_Practice_Link'' = None" by simp
  show "value_at (build_report data (rows, nf, ne, ns, np) dci_jobid) (11 + i, 4) = JStr []"
    using report_value_row [OF i, of 4 data nf ne ns np dci_jobid] co
    by (simp add: row_data_columns row_get_def)
  show "value_at (build_report data (rows, nf, ne, ns, np) dci_jobid) (11 + i, 8) = JStr []"
    using report_value_row [OF i, of 8 data nf ne ns np dci_jobid] bp
    by (simp add: row_data_columns row_get_def)
qed

lemma example_extract_rows:
  "snd (extract_test_results no_fmt utf8_encodes example_claim) =
     Inr ([example_row ''B'' ''failed'', example_row ''A'' ''skipped'',
           example_row ''A'' ''passed''], 1, 0, 1, 1)"
  by (simp add: example_extract example_extracted_def)

theorem passed_rows_have_no_output_witness:
  "normalize_entry no_fmt (example_test ''B'' ''failed'') = Inr (example_row ''B'' ''failed'')
   \<and> \<not> has_state (py ''passed'') (example_row ''B'' ''failed'')
   \<and> map_of (example_row ''B'' ''failed'') ''Capture_Output'' \<noteq> None
   \<and> snd (extract_test_results no_fmt utf8_encodes example_claim) =
       Inr ([example_row ''B'' ''failed'', example_row ''A'' ''skipped'',
             example_row ''A'' ''passed''], 1, 0, 1, 1)
   \<and> 2 < length [example_row ''B'' ''failed'', example_row ''A'' ''skipped'',
                 example_row ''A'' ''passed'']
   \<and> has_state (py ''passed'')
        ([example_row ''B'' ''failed'', example_row ''A'' ''skipped'',
          example_row ''A'' ''passed''] ! 2)
   \<and> value_at (build_report example_claim
        ([example_row ''B'' ''failed'', example_row ''A'' ''skipped'',
          example_row ''A'' ''passed''], 1, 0, 1, 1) (py ''12345'')) (11 + 2, 4) = JStr []
   \<and> value_at (build_report example_claim
        ([example_row ''B'' ''failed'', example_row ''A'' ''skipped'',
          example_row ''A'' ''passed''], 1, 0, 1, 1) (py ''12345'')) (11 + 2, 8) = JStr []"
proof -
  have 1: "normalize_entry no_fmt (example_test ''B'' ''failed'') = Inr (example_row ''B'' ''failed'')"
    by (rule example_normalize)
  have 2: "\<not> has_state (py ''passed'') (example_row ''B'' ''failed'')"
    by (simp add: has_state_def row_get_def example_row_def)
  have 3: "2 < length [example_row ''B'' ''failed'', example_row ''A'' ''skipped'',
                 example_row ''A'' ''passed'']" by simp
  have 4: "has_state (py ''passed'')
        ([example_row ''B'' ''failed'', example_row ''A'' ''skipped'',
          example_row ''A'' ''passed''] ! 2)"
    by (simp add: has_state_def row_get_def example_row_def)
  from passed_rows_have_no_output [of no_fmt "example_test ''B'' ''failed''"
      "example_row ''B'' ''failed''" utf8_encodes example_claim
      "[example_row ''B'' ''failed'', example_row ''A'' ''skipped'', example_row ''A'' ''passed'']"
      1 0 1 1 2 "py ''12345''"] 1 2 3 4 example_extract_rows
  show ?thesis by blast
qed

section \<open>The report\<close>

lemma example_keyword_values:
  "has_keyword (JStr (py ''Telco: Mandatory''))" "has_keyword (JStr (py ''Telco: fix''))"
  by (simp_all add: has_keyword_def keywords_list_def py_def)

text \<open>
  C8 (as the specification states it, refuted). In the report of the example claim the cell of
  row 11 and column 7 (\<open>Remediation\<close>) holds \<open>"Telco: fix"\<close>, which contains the keyword
  \<open>Telco:\<close>, and its font is not the font of the classifications: the loop that sets the font
  visits the columns 1 to 6 only.
\<close>

theorem keyword_in_remediation_keeps_font:
  "snd (extract_test_results no_fmt utf8_encodes example_claim) = Inr example_extracted
   \<and> has_keyword (value_at (build_report example_claim example_extracted (py ''12345'')) (11, 7))
   \<and> font_at (build_report example_claim example_extracted (py ''12345'')) (11, 7)
       \<noteq> Some blue_bold_font"
proof -
  have "value_at (build_report example_claim example_extracted (py ''12345'')) (11 + 0, 7) =
      JStr (py ''Telco: fix'')"
    unfolding example_extracted_def
    by (subst report_value_row) (simp_all add: row_data_columns row_get_def example_row_def)
  then have "has_keyword (value_at (build_report example_claim example_extracted (py ''12345''))
      (11, 7))"
    by (simp add: example_keyword_values)
  moreover have "font_at (build_report example_claim example_extracted (py ''12345'')) (11, 7)
       \<noteq> Some blue_bold_font"
    unfolding example_extracted_def by (rule report_font_outside) simp
  ultimately show ?thesis by (simp add: example_extract)
qed

text \<open>
  C8 (amended). In the report, every cell of the row table (rows 11 and below) in the columns
  1 to 6 whose value is a string that contains one of \<open>Extended:\<close>, \<open>FarEdge:\<close>, \<open>NonTelco:\<close>,
  \<open>Telco:\<close> has the font of the classifications. The cells of the columns 7 and 8 are not
  examined: whatever their value is, none of them has that font.
\<close>

theorem keyword_cells_are_coloured:
  "(11 \<le> r \<longrightarrow> 1 \<le> c \<longrightarrow> c \<le> 6
      \<longrightarrow> has_keyword (value_at (build_report data ex dci_jobid) (r, c))
      \<longrightarrow> font_at (build_report data ex dci_jobid) (r, c) = Some blue_bold_font)
   \<and> (7 \<le> c' \<longrightarrow> font_at (build_report data ex dci_jobid) (r', c') \<noteq> Some blue_bold_font)"
proof (intro conjI impI)
  assume "11 \<le> r" "1 \<le> c" "c \<le> 6"
    "has_keyword (value_at (build_report data ex dci_jobid) (r, c))"
  then show "font_at (build_report data ex dci_jobid) (r, c) = Some blue_bold_font"
    by (intro report_font_keyword) simp_all
next
  assume c: "7 \<le> c'"
  obtain rows nf ne ns np where ex: "ex = (rows, nf, ne, ns, np)" by (cases ex)
  show "font_at (build_report data ex dci_jobid) (r', c') \<noteq> Some blue_bold_font"
    unfolding ex by (rule report_font_outside [OF c])
qed

theorem keyword_cells_are_coloured_witness:
  "(11::nat) \<le> 11 \<and> (1::nat) \<le> 5 \<and> (5::nat) \<le> 6
   \<and> has_keyword (value_at (build_report example_claim example_extracted (py ''12345'')) (11, 5))
   \<and> font_at (build_report example_claim example_extracted (py ''12345'')) (11, 5)
       = Some blue_bold_font
   \<and> (7::nat) \<le> 8
   \<and> font_at (build_report example_claim example_extracted (py ''12345'')) (11, 8)
       \<noteq> Some blue_bold_font"
proof -
  have "value_at (build_report example_claim example_extracted (py ''12345'')) (11 + 0, 5) =
      JStr (py ''Telco: Mandatory'')"
    unfolding example_extracted_def
    by (subst report_value_row) (simp_all add: row_data_columns row_get_def example_row_def)
  then have k: "has_keyword (value_at (build_report example_claim example_extracted (py ''12345''))
      (11, 5))"
    by (simp add: example_keyword_values)
  from keyword_cells_are_coloured [of 11 5 example_claim example_extracted "py ''12345''" 8 11] k
  show ?thesis by simp
qed

lemma generate_body_Inr:
  assumes "generate_body fmt enc input can_save dci_jobid = Inr ws"
  shows "\<exists>data ex. input = Parsed data \<and> snd (extract_test_results fmt enc data) = Inr ex
           \<and> ws = build_report data ex dci_jobid"
  using assms
  by (cases input) (auto simp: generate_body_def then_do_eq_Inr split: if_splits)

lemma generate_Saved:
  assumes "generate_cert_test_excel_report fmt enc input can_save dci_jobid = Saved ws"
  shows "\<exists>data ex. input = Parsed data \<and> snd (extract_test_results fmt enc data) = Inr ex
           \<and> ws = build_report data ex dci_jobid"
  using assms generate_body_Inr [of fmt enc input can_save dci_jobid ws]
  by (auto simp: generate_cert_test_excel_report_def split: sum.splits)

lemma job_url_default:
  "job_url (py ''12345'') = py ''https://www.distributed-ci.io/jobs/12345''"
  by (simp add: job_url_def py_def)

text \<open>
  C9. A run without a job reference that saves a report has written
  \<open>https://www.distributed-ci.io/jobs/12345\<close> to the cell B7: the job reference defaults to
  \<open>"12345"\<close>.
\<close>

theorem offline_job_url:
  assumes "job_id args = None" and "main fmt env args = Saved ws"
  shows "value_at ws (7, 2) = JStr (py ''https://www.distributed-ci.io/jobs/12345'')"
proof -
  from assms have "generate_cert_test_excel_report fmt (stdout_encodes env)
      (file_at env (input_file args))
      (can_write env (output_file args)) (py ''12345'') = Saved ws"
    by (auto simp: main_def split: option.splits)
  from generate_Saved [OF this] obtain data ex where
    "ws = build_report data ex (py ''12345'')" by blast
  then show ?thesis
    by (cases ex) (simp add: report_value_job job_url_default)
qed

lemma example_main:
  "main no_fmt example_env example_args =
     Saved (build_report example_claim example_extracted (py ''12345''))"
proof -
  have "py_in (py ''claim'') example_claim = Inr True"
    by (simp add: example_claim_def claim_of_def)
  moreover have "py_get example_claim (py ''claim'') (JObj []) =
      Inr (JObj [(py ''results'', JObj example_items)])"
    by (simp add: example_claim_def claim_of_def)
  ultimately have "generate_body no_fmt utf8_encodes (Parsed example_claim) True (py ''12345'') =
      Inr (build_report example_claim example_extracted (py ''12345''))"
    by (simp add: generate_body_def example_extract)
  then show ?thesis
    by (simp add: main_def check_file_exists_def example_env_def example_args_def
        generate_cert_test_excel_report_def)
qed

theorem offline_job_url_witness:
  "job_id example_args = None
   \<and> main no_fmt example_env example_args =
       Saved (build_report example_claim example_extracted (py ''12345''))
   \<and> value_at (build_report example_claim example_extracted (py ''12345'')) (7, 2) =
       JStr (py ''https://www.distributed-ci.io/jobs/12345'')"
proof -
  have 1: "job_id example_args = None" by (simp add: example_args_def)
  from offline_job_url [OF 1 example_main] 1 example_main show ?thesis by blast
qed

text \<open>
  C10. When \<open>dcirc.sh\<close> is no file of the working directory the run ends with exit status 0
  before anything is read, with or without a job reference, and leaves no report.
\<close>

theorem missing_dcirc_exits_zero:
  assumes "\<not> dcirc_is_file env"
  shows "main fmt env args = Exit 0 \<and> exit_status (main fmt env args) = 0
         \<and> report (main fmt env args) = None"
  using assms by (simp add: main_def check_file_exists_def)

theorem missing_dcirc_exits_zero_witness:
  "\<not> dcirc_is_file (example_env\<lparr>dcirc_is_file := False\<rparr>)
   \<and> job_id example_args = None
   \<and> main no_fmt (example_env\<lparr>dcirc_is_file := False\<rparr>) example_args = Exit 0
   \<and> exit_status (main no_fmt (example_env\<lparr>dcirc_is_file := False\<rparr>) example_args) = 0
   \<and> report (main no_fmt (example_env\<lparr>dcirc_is_file := False\<rparr>) example_args) = None"
proof -
  have 1: "\<not> dcirc_is_file (example_env\<lparr>dcirc_is_file := False\<rparr>)" by simp
  have 2: "job_id example_args = None" by (simp add: example_args_def)
  from missing_dcirc_exits_zero [OF 1, of no_fmt example_args] 1 2 show ?thesis by blast
qed

end
